theory Spec2Isabelle
  imports Complex_Main "HOL-Library.Word" "HOL-Library.AList"
begin

unbundle bit_operations_syntax

section \<open>Bytes and Python exceptions\<close>

type_synonym byte = "8 word"
type_synonym bytes = "byte list"

text \<open>The exceptions that the modelled code can raise. \<open>SendFailed\<close> is the plain
  \<open>Exception\<close> raised by the relay loops when \<open>send_all\<close> reports fewer bytes than were
  read.\<close>

datatype exn = SocketError | ValueError | IndexError | TypeError | AttributeError
  | UnicodeDecodeError | StructError | SendFailed

section \<open>The AES-CFB cipher object of the Crypto library\<close>

text \<open>
  \<open>Crypto.Cipher.AES\<close> is an external library. Its block function is a parameter
  \<open>aes\<close> (key and 16-byte block to 16-byte block) of everything below; nothing is assumed
  about it. \<open>AES.new(key, AES.MODE_CFB, iv)\<close> raises \<open>ValueError\<close> when the IV is not
  exactly one block (16 bytes) long, and otherwise returns a cipher object in CFB mode with the
  library's default segment size of 8 bits: the object holds the key and a 16-byte shift
  register that starts as the IV; every byte is combined with the first byte of the encrypted
  register, and the ciphertext byte is shifted into the register. The key is always a SHA-256
  digest here, so the library's check of the key length never fires and is not modelled.
\<close>

type_synonym block_cipher = "bytes \<Rightarrow> bytes \<Rightarrow> bytes"

record cfb_cipher =
  cfb_key :: bytes
  cfb_reg :: bytes

definition AES_new :: "bytes \<Rightarrow> bytes \<Rightarrow> exn + cfb_cipher" where
  "AES_new k v = (if length v \<noteq> 16 then Inl ValueError
                  else Inr \<lparr>cfb_key = k, cfb_reg = v\<rparr>)"

definition keystream_byte :: "block_cipher \<Rightarrow> cfb_cipher \<Rightarrow> byte" where
  "keystream_byte aes c = (case aes (cfb_key c) (cfb_reg c) of [] \<Rightarrow> 0 | b # _ \<Rightarrow> b)"

definition shift_in :: "cfb_cipher \<Rightarrow> byte \<Rightarrow> cfb_cipher" where
  "shift_in c x = c\<lparr>cfb_reg := tl (cfb_reg c) @ [x]\<rparr>"

fun cfb_encrypt :: "block_cipher \<Rightarrow> cfb_cipher \<Rightarrow> bytes \<Rightarrow> bytes \<times> cfb_cipher" where
  "cfb_encrypt aes c [] = ([], c)"
| "cfb_encrypt aes c (p # ps) =
     (let x = p XOR keystream_byte aes c;
          (xs, c') = cfb_encrypt aes (shift_in c x) ps
      in (x # xs, c'))"

fun cfb_decrypt :: "block_cipher \<Rightarrow> cfb_cipher \<Rightarrow> bytes \<Rightarrow> bytes \<times> cfb_cipher" where
  "cfb_decrypt aes c [] = ([], c)"
| "cfb_decrypt aes c (x # xs) =
     (let p = x XOR keystream_byte aes c;
          (ps, c') = cfb_decrypt aes (shift_in c x) xs
      in (p # ps, c'))"

section \<open>The Encryptor class (local3.py and server3.py, identical in both)\<close>

text \<open>\<open>get_random_bytes(n)\<close> draws \<open>n\<close> bytes from a random source; the source is the
  parameter \<open>rnd\<close>, giving the byte drawn at each position.\<close>

definition get_random_bytes :: "(nat \<Rightarrow> byte) \<Rightarrow> nat \<Rightarrow> bytes" where
  "get_random_bytes rnd n = map rnd [0..<n]"

text \<open>\<open>bytes(range(256))\<close>.\<close>

definition bytes_range_256 :: bytes where
  "bytes_range_256 = map of_nat [0..<256]"

text \<open>\<open>struct.unpack('<QQ', s)\<close>: the first component, the little-endian value of the first
  eight bytes of the digest.\<close>

definition unpack_le_u64 :: "bytes \<Rightarrow> nat" where
  "unpack_le_u64 s = foldr (\<lambda>b acc. unat b + 256 * acc) (take 8 s) 0"

text \<open>The sort key \<open>int(a % (x + i) - a % (i))\<close> of \<open>_get_table\<close>.\<close>

definition table_key :: "nat \<Rightarrow> nat \<Rightarrow> nat \<Rightarrow> int" where
  "table_key a i x = int (a mod (x + i)) - int (a mod i)"

text \<open>\<open>_get_table\<close>: 1023 stable sorts of \<open>list(range(256))\<close>. Python's \<open>list.sort\<close> is
  stable, as \<open>sort_key\<close> is. The hash function \<open>md5\<close> is a parameter; the password is given
  as its UTF-8 encoding.\<close>

definition get_table :: "(bytes \<Rightarrow> bytes) \<Rightarrow> bytes \<Rightarrow> bytes" where
  "get_table md5 pw =
     (let s = md5 pw;
          a = unpack_le_u64 s;
          table = foldl (\<lambda>t i. sort_key (table_key a i) t) [0..<256] [1..<1024]
      in map of_nat table)"

text \<open>The same 1023 sorts for a given number \<open>a\<close>, before the conversion to bytes.\<close>

definition raw_table :: "nat \<Rightarrow> nat list" where
  "raw_table a = foldl (\<lambda>t i. sort_key (table_key a i) t) [0..<256] [1..<1024]"

text \<open>\<open>bytes.maketrans(frm, to)\<close>: the identity table with \<open>frm[i]\<close> mapped to \<open>to[i]\<close>;
  it raises \<open>ValueError\<close> when the two arguments differ in length.\<close>

definition maketrans :: "bytes \<Rightarrow> bytes \<Rightarrow> exn + bytes" where
  "maketrans frm to =
     (if length frm \<noteq> length to then Inl ValueError
      else Inr (foldl (\<lambda>t (f, x). t[unat f := x]) bytes_range_256 (zip frm to)))"

text \<open>\<open>data.translate(table)\<close>: it raises \<open>ValueError\<close> unless the table has 256 entries.\<close>

definition translate :: "bytes \<Rightarrow> bytes \<Rightarrow> exn + bytes" where
  "translate d table =
     (if length table \<noteq> 256 then Inl ValueError
      else Inr (map (\<lambda>b. table ! unat b) d))"

record Encryptor =
  key :: bytes
  "method" :: string
  iv :: "bytes option"
  iv_sent :: bool
  cipher_iv :: "cfb_cipher option"
  decipher :: "cfb_cipher option"
  encrypt_table :: bytes
  decrypt_table :: bytes

text \<open>\<open>Encryptor.__init__\<close>. The attributes \<open>encrypt_table\<close> and \<open>decrypt_table\<close> exist only
  for the table method; they are empty otherwise.\<close>

definition Encryptor_init ::
  "(bytes \<Rightarrow> bytes) \<Rightarrow> (bytes \<Rightarrow> bytes) \<Rightarrow> (nat \<Rightarrow> byte) \<Rightarrow> bytes \<Rightarrow> string \<Rightarrow> exn + Encryptor" where
  "Encryptor_init sha256 md5 rnd pw m =
     (if m = ''aes-256-cfb'' then
        (let k = sha256 pw; v = get_random_bytes rnd 16 in
         case AES_new k v of
           Inl x \<Rightarrow> Inl x
         | Inr c \<Rightarrow> Inr \<lparr>key = k, method = m, iv = Some v, iv_sent = False,
                         cipher_iv = Some c, decipher = None,
                         encrypt_table = [], decrypt_table = []\<rparr>)
      else
        (let t = get_table md5 pw in
         case maketrans t bytes_range_256 of
           Inl x \<Rightarrow> Inl x
         | Inr t' \<Rightarrow> Inr \<lparr>key = pw, method = m, iv = None, iv_sent = False,
                          cipher_iv = None, decipher = None,
                          encrypt_table = t, decrypt_table = t'\<rparr>))"

text \<open>\<open>Encryptor.encrypt\<close>. The flag \<open>iv_sent\<close> is set before the return expression is
  evaluated, so it stays set when that expression raises.\<close>

definition encrypt :: "block_cipher \<Rightarrow> Encryptor \<Rightarrow> bytes \<Rightarrow> (exn + bytes) \<times> Encryptor" where
  "encrypt aes e d =
     (if method e = ''aes-256-cfb'' then
        (if \<not> iv_sent e then
           (let e1 = e\<lparr>iv_sent := True\<rparr> in
            case cipher_iv e1 of
              None \<Rightarrow> (Inl AttributeError, e1)
            | Some c \<Rightarrow>
                (let (out, c') = cfb_encrypt aes c d;
                     e2 = e1\<lparr>cipher_iv := Some c'\<rparr>
                 in case iv e2 of
                      None \<Rightarrow> (Inl TypeError, e2)
                    | Some v \<Rightarrow> (Inr (v @ out), e2)))
         else
           (case cipher_iv e of
              None \<Rightarrow> (Inl AttributeError, e)
            | Some c \<Rightarrow>
                (let (out, c') = cfb_encrypt aes c d
                 in (Inr out, e\<lparr>cipher_iv := Some c'\<rparr>))))
      else (translate d (encrypt_table e), e))"

text \<open>\<open>Encryptor.decrypt\<close>. The assignment \<open>self.iv = data[:16]\<close> happens before
  \<open>AES.new\<close> can raise, so the attribute \<open>iv\<close> is overwritten also when the call fails.\<close>

definition decrypt :: "block_cipher \<Rightarrow> Encryptor \<Rightarrow> bytes \<Rightarrow> (exn + bytes) \<times> Encryptor" where
  "decrypt aes e d =
     (if method e = ''aes-256-cfb'' then
        (case decipher e of
           None \<Rightarrow>
             (let e1 = e\<lparr>iv := Some (take 16 d)\<rparr> in
              case AES_new (key e1) (take 16 d) of
                Inl x \<Rightarrow> (Inl x, e1)
              | Inr c \<Rightarrow>
                  (let (out, c') = cfb_decrypt aes c (drop 16 d)
                   in (Inr out, e1\<lparr>decipher := Some c'\<rparr>)))
         | Some c \<Rightarrow>
             (let (out, c') = cfb_decrypt aes c d
              in (Inr out, e\<lparr>decipher := Some c'\<rparr>)))
      else (translate d (decrypt_table e), e))"

text \<open>Successive calls of \<open>encrypt\<close> and of \<open>decrypt\<close> on one object, one call per chunk; the
  first exception ends the sequence.\<close>

fun encrypt_chunks :: "block_cipher \<Rightarrow> Encryptor \<Rightarrow> bytes list \<Rightarrow> (exn + bytes list) \<times> Encryptor" where
  "encrypt_chunks aes e [] = (Inr [], e)"
| "encrypt_chunks aes e (d # ds) =
     (case encrypt aes e d of
        (Inl x, e') \<Rightarrow> (Inl x, e')
      | (Inr c, e') \<Rightarrow>
          (case encrypt_chunks aes e' ds of
             (Inl x, e'') \<Rightarrow> (Inl x, e'')
           | (Inr cs, e'') \<Rightarrow> (Inr (c # cs), e'')))"

fun decrypt_chunks :: "block_cipher \<Rightarrow> Encryptor \<Rightarrow> bytes list \<Rightarrow> (exn + bytes list) \<times> Encryptor" where
  "decrypt_chunks aes e [] = (Inr [], e)"
| "decrypt_chunks aes e (d # ds) =
     (case decrypt aes e d of
        (Inl x, e') \<Rightarrow> (Inl x, e')
      | (Inr p, e') \<Rightarrow>
          (case decrypt_chunks aes e' ds of
             (Inl x, e'') \<Rightarrow> (Inl x, e'')
           | (Inr ps, e'') \<Rightarrow> (Inr (p # ps), e'')))"



definition ingress_plain ::
  "block_cipher \<Rightarrow> (bytes \<Rightarrow> bytes) \<Rightarrow> (bytes \<Rightarrow> bytes) \<Rightarrow> (nat \<Rightarrow> byte) \<Rightarrow> bytes
     \<Rightarrow> bytes list \<Rightarrow> exn + bytes" where
  "ingress_plain aes sha256 md5 rnd pw ds =
     (case Encryptor_init sha256 md5 rnd pw ''aes-256-cfb'' of
        Inl x \<Rightarrow> Inl x
      | Inr e \<Rightarrow> (case fst (decrypt_chunks aes e ds) of
                    Inl x \<Rightarrow> Inl x
                  | Inr os \<Rightarrow> Inr (concat os)))"


section \<open>The accounting sink (monitor.py, class ConnectionStats)\<close>

text \<open>
  The dictionary stored for each connection is a record; the key \<open>end_time\<close> is absent until
  \<open>close_connection\<close> sets it. The dictionary \<open>connections\<close> is an association list in
  insertion order, as a Python dictionary is: assigning to a stored key replaces the value in
  place, assigning to a new key appends (\<open>AList.update\<close>). Every method runs under the
  object's lock, so each is one atomic state transformer. The value of \<open>time.time()\<close> is the
  parameter \<open>now\<close>.
\<close>

record ConnectionRecord =
  c_id :: string
  host :: string
  port :: int
  c_start_time :: real
  bytes_in :: int
  bytes_out :: int
  status :: string
  end_time :: "real option"

record Stats =
  total_connections :: int
  active_connections :: int
  total_bytes_in :: int
  total_bytes_out :: int
  uptime :: real

record ConnectionStats =
  start_time :: real
  connections :: "(string \<times> ConnectionRecord) list"
  stats :: Stats

definition reset :: "real \<Rightarrow> ConnectionStats \<Rightarrow> ConnectionStats" where
  "reset now s = s\<lparr>start_time := now, connections := [],
                   stats := \<lparr>total_connections = 0, active_connections = 0,
                             total_bytes_in = 0, total_bytes_out = 0, uptime = 0\<rparr>\<rparr>"

definition ConnectionStats_init :: "real \<Rightarrow> ConnectionStats" where
  "ConnectionStats_init now =
     reset now \<lparr>start_time = 0, connections = [],
                stats = \<lparr>total_connections = 0, active_connections = 0,
                          total_bytes_in = 0, total_bytes_out = 0, uptime = 0\<rparr>\<rparr>"

definition add_connection :: "real \<Rightarrow> ConnectionStats \<Rightarrow> string \<Rightarrow> string \<Rightarrow> int \<Rightarrow> ConnectionStats" where
  "add_connection now s client_id h p =
     s\<lparr>stats := (stats s)\<lparr>total_connections := total_connections (stats s) + 1,
                            active_connections := active_connections (stats s) + 1\<rparr>,
       connections := AList.update client_id
          \<lparr>c_id = client_id, host = h, port = p, c_start_time = now,
           bytes_in = 0, bytes_out = 0, status = ''active'', end_time = None\<rparr>
          (connections s)\<rparr>"

definition close_connection :: "real \<Rightarrow> ConnectionStats \<Rightarrow> string \<Rightarrow> ConnectionStats" where
  "close_connection now s client_id =
     (case map_of (connections s) client_id of
        None \<Rightarrow> s
      | Some r \<Rightarrow>
          s\<lparr>connections := AList.update client_id
                (r\<lparr>status := ''closed'', end_time := Some now\<rparr>) (connections s),
            stats := (stats s)\<lparr>active_connections := active_connections (stats s) - 1\<rparr>\<rparr>)"

definition update_traffic :: "ConnectionStats \<Rightarrow> string \<Rightarrow> int \<Rightarrow> int \<Rightarrow> ConnectionStats" where
  "update_traffic s client_id b_in b_out =
     (case map_of (connections s) client_id of
        None \<Rightarrow> s
      | Some r \<Rightarrow>
          s\<lparr>connections := AList.update client_id
                (r\<lparr>bytes_in := bytes_in r + b_in, bytes_out := bytes_out r + b_out\<rparr>)
                (connections s),
            stats := (stats s)\<lparr>total_bytes_in := total_bytes_in (stats s) + b_in,
                                 total_bytes_out := total_bytes_out (stats s) + b_out\<rparr>\<rparr>)"

definition get_stats :: "real \<Rightarrow> ConnectionStats \<Rightarrow> (Stats \<times> ConnectionRecord list) \<times> ConnectionStats" where
  "get_stats now s =
     (let s' = s\<lparr>stats := (stats s)\<lparr>uptime := now - start_time s\<rparr>\<rparr>
      in ((stats s', map snd (connections s')), s'))"

text \<open>Sequences of calls on the sink.\<close>

datatype sink_call =
    AddConnection real string string int
  | UpdateTraffic string int int
  | CloseConnection real string
  | ResetStats real

fun apply_call :: "ConnectionStats \<Rightarrow> sink_call \<Rightarrow> ConnectionStats" where
  "apply_call s (AddConnection now client_id h p) = add_connection now s client_id h p"
| "apply_call s (UpdateTraffic client_id b_in b_out) = update_traffic s client_id b_in b_out"
| "apply_call s (CloseConnection now client_id) = close_connection now s client_id"
| "apply_call s (ResetStats now) = reset now s"

fun run_calls :: "ConnectionStats \<Rightarrow> sink_call list \<Rightarrow> ConnectionStats" where
  "run_calls s [] = s"
| "run_calls s (c # cs) = run_calls (apply_call s c) cs"

text \<open>The totals agree with the stored records.\<close>

definition sink_consistent :: "ConnectionStats \<Rightarrow> bool" where
  "sink_consistent s =
     (total_bytes_in (stats s) = sum_list (map (\<lambda>(k, r). bytes_in r) (connections s))
    \<and> total_bytes_out (stats s) = sum_list (map (\<lambda>(k, r). bytes_out r) (connections s))
    \<and> active_connections (stats s)
         = int (length (filter (\<lambda>(k, r). status r = ''active'') (connections s))))"

text \<open>
  \<open>closes_at_most_once\<close>: no stored id is closed twice (\<open>added_ids\<close> are the ids added
  since the last reset, \<open>done_ids\<close> those of them already closed). \<open>adds_fresh\<close>: no
  \<open>add_connection\<close> reuses an id that is still stored.
\<close>

fun closes_at_most_once :: "string list \<Rightarrow> string list \<Rightarrow> sink_call list \<Rightarrow> bool" where
  "closes_at_most_once added_ids done_ids [] = True"
| "closes_at_most_once added_ids done_ids (AddConnection now client_id h p # cs) =
     closes_at_most_once (client_id # added_ids) done_ids cs"
| "closes_at_most_once added_ids done_ids (UpdateTraffic client_id b_in b_out # cs) =
     closes_at_most_once added_ids done_ids cs"
| "closes_at_most_once added_ids done_ids (CloseConnection now client_id # cs) =
     (if client_id \<in> set added_ids
      then client_id \<notin> set done_ids \<and> closes_at_most_once added_ids (client_id # done_ids) cs
      else closes_at_most_once added_ids done_ids cs)"
| "closes_at_most_once added_ids done_ids (ResetStats now # cs) = closes_at_most_once [] [] cs"

fun adds_fresh :: "string list \<Rightarrow> sink_call list \<Rightarrow> bool" where
  "adds_fresh stored [] = True"
| "adds_fresh stored (AddConnection now client_id h p # cs) =
     (client_id \<notin> set stored \<and> adds_fresh (client_id # stored) cs)"
| "adds_fresh stored (UpdateTraffic client_id b_in b_out # cs) = adds_fresh stored cs"
| "adds_fresh stored (CloseConnection now client_id # cs) = adds_fresh stored cs"
| "adds_fresh stored (ResetStats now # cs) = adds_fresh [] cs"

text \<open>The bookkeeping of \<open>closes_at_most_once\<close> and \<open>adds_fresh\<close> describes the sink: the stored
  ids are the added ones, and a stored record whose id has not been closed is active.\<close>

definition tracked :: "ConnectionStats \<Rightarrow> string list \<Rightarrow> string list \<Rightarrow> bool" where
  "tracked s added_ids done_ids =
     (fst ` set (connections s) = set added_ids
    \<and> (\<forall>k r. map_of (connections s) k = Some r \<and> k \<notin> set done_ids \<longrightarrow> status r = ''active'')
    \<and> sink_consistent s)"

section \<open>Sockets and the environment of one connection\<close>

text \<open>
  Both endpoints name their two sockets \<open>sock\<close> and \<open>remote\<close>. On the client \<open>sock\<close> is the
  accepted user connection and \<open>remote\<close> the connection to the tunnel server; on the server
  \<open>sock\<close> is the accepted peer connection and \<open>remote\<close> the connection to the origin.

  The world of one connection holds what the network will deliver and what the code has done:
  \<^item> \<open>sock_in\<close>, \<open>remote_in\<close>: what the successive \<open>recv\<close> calls on each socket find, either a
    segment of data or a failure (\<open>socket.error\<close>); an exhausted list is the end of the stream,
    where \<open>recv\<close> returns the empty string;
  \<^item> \<open>sends_ok\<close>: whether the successive \<open>send\<close> calls succeed (an exhausted list: they do);
    a \<open>send\<close> that succeeds transmits its whole argument;
  \<^item> \<open>connect_ok\<close>: whether \<open>remote.connect\<close> succeeds; \<open>peername\<close>: the result of
    \<open>sock.getpeername()\<close>, \<open>None\<close> when it raises;
  \<^item> \<open>trace\<close>: the socket operations performed so far, oldest first;
  \<^item> \<open>encryptor\<close>: the attribute \<open>self.encryptor\<close>; \<open>sink\<close>: the global \<open>connection_stats\<close>.
  Logging is not modelled.
\<close>

datatype sock = Sock | Remote

datatype event = Send sock bytes | Connect | Close sock

datatype arrival = Data bytes | Failure

record world =
  sock_in :: "arrival list"
  remote_in :: "arrival list"
  sends_ok :: "bool list"
  connect_ok :: bool
  peername :: "(string \<times> int) option"
  trace :: "event list"
  encryptor :: "Encryptor option"
  sink :: ConnectionStats

text \<open>The library functions and the constants of one run: the block function, the two hash
  functions, the random source, the validity test of the UTF-8 decoder, the configured password
  (as its UTF-8 encoding) and method, the connection id \<open>f"{id(self)}_{time.time()}"\<close> and the
  value of \<open>time.time()\<close>.\<close>

record runtime =
  aes_fn :: block_cipher
  sha256_fn :: "bytes \<Rightarrow> bytes"
  md5_fn :: "bytes \<Rightarrow> bytes"
  rnd_fn :: "nat \<Rightarrow> byte"
  utf8_ok :: "bytes \<Rightarrow> bool"
  password :: bytes
  cipher_method :: string
  conn_id :: string
  clock :: real

definition pending :: "sock \<Rightarrow> world \<Rightarrow> arrival list" where
  "pending s w = (case s of Sock \<Rightarrow> sock_in w | Remote \<Rightarrow> remote_in w)"

definition set_pending :: "sock \<Rightarrow> arrival list \<Rightarrow> world \<Rightarrow> world" where
  "set_pending s xs w = (case s of Sock \<Rightarrow> w\<lparr>sock_in := xs\<rparr> | Remote \<Rightarrow> w\<lparr>remote_in := xs\<rparr>)"

text \<open>\<open>s.recv(n)\<close>: at most \<open>n\<close> bytes of the next segment; the rest of the segment stays for
  the next call.\<close>

definition recv :: "sock \<Rightarrow> nat \<Rightarrow> world \<Rightarrow> (exn + bytes) \<times> world" where
  "recv s n w =
     (if n = 0 then (Inr [], w)
      else case pending s w of
        [] \<Rightarrow> (Inr [], w)
      | Failure # rest \<Rightarrow> (Inl SocketError, set_pending s rest w)
      | Data bs # rest \<Rightarrow>
          (Inr (take n bs),
           set_pending s (if n < length bs then Data (drop n bs) # rest else rest) w))"

text \<open>\<open>s.send(d)\<close>: the number of bytes sent.\<close>

definition send :: "sock \<Rightarrow> bytes \<Rightarrow> world \<Rightarrow> (exn + nat) \<times> world" where
  "send s d w =
     (case sends_ok w of
        [] \<Rightarrow> (Inr (length d), w\<lparr>trace := trace w @ [Send s d]\<rparr>)
      | ok # rest \<Rightarrow>
          if ok then (Inr (length d), w\<lparr>sends_ok := rest, trace := trace w @ [Send s d]\<rparr>)
          else (Inl SocketError, w\<lparr>sends_ok := rest\<rparr>))"

text \<open>\<open>send_all\<close>: the loop calls \<open>send\<close> on the unsent rest until \<open>bytes_sent\<close> equals
  \<open>len(data)\<close>. A successful \<open>send\<close> transmits its whole argument, so the loop returns
  \<open>len(data)\<close> after its first round; the branch \<open>r < 0\<close> is never taken.\<close>

definition send_all :: "sock \<Rightarrow> bytes \<Rightarrow> world \<Rightarrow> (exn + nat) \<times> world" where
  "send_all s d w =
     (case send s d w of
        (Inl x, w') \<Rightarrow> (Inl x, w')
      | (Inr r, w') \<Rightarrow> (Inr r, w'))"

text \<open>\<open>remote.connect(...)\<close> on a new socket, and \<open>s.close()\<close>.\<close>

definition connect :: "world \<Rightarrow> (exn + unit) \<times> world" where
  "connect w =
     (let w' = w\<lparr>trace := trace w @ [Connect]\<rparr>
      in if connect_ok w then (Inr (), w') else (Inl SocketError, w'))"

definition close :: "sock \<Rightarrow> world \<Rightarrow> world" where
  "close s w = w\<lparr>trace := trace w @ [Close s]\<rparr>"

text \<open>How a function ends: it returns, it raises, or it waits for ever in \<open>select\<close> because
  the environment has no further round for it.\<close>

datatype outcome = Returned | Raised exn | Blocked

datatype step = Continue | Break

section \<open>The client relay: SocksProxy.handle_tcp (local3.py)\<close>

text \<open>The branch \<open>if sock in r\<close> of the loop body.\<close>

definition local_sock_leg :: "runtime \<Rightarrow> world \<Rightarrow> (exn + step) \<times> world" where
  "local_sock_leg rt w =
     (case recv Sock 4096 w of
        (Inl x, w1) \<Rightarrow> (Inl x, w1)
      | (Inr data, w1) \<Rightarrow>
          if length data \<le> 0 then (Inr Break, w1)
          else case encryptor w1 of
            None \<Rightarrow> (Inl AttributeError, w1)
          | Some e \<Rightarrow>
              case encrypt (aes_fn rt) e data of
                (Inl x, e') \<Rightarrow> (Inl x, w1\<lparr>encryptor := Some e'\<rparr>)
              | (Inr encrypted, e') \<Rightarrow>
                  case send_all Remote encrypted (w1\<lparr>encryptor := Some e'\<rparr>) of
                    (Inl x, w2) \<Rightarrow> (Inl x, w2)
                  | (Inr result, w2) \<Rightarrow>
                      if result < length data then (Inl SendFailed, w2)
                      else (Inr Continue,
                            w2\<lparr>sink := update_traffic (sink w2) (conn_id rt) 0
                                          (int (length encrypted))\<rparr>))"

text \<open>The branch \<open>if remote in r\<close> of the loop body.\<close>

definition local_remote_leg :: "runtime \<Rightarrow> world \<Rightarrow> (exn + step) \<times> world" where
  "local_remote_leg rt w =
     (case recv Remote 4096 w of
        (Inl x, w1) \<Rightarrow> (Inl x, w1)
      | (Inr data, w1) \<Rightarrow>
          if length data \<le> 0 then (Inr Break, w1)
          else case encryptor w1 of
            None \<Rightarrow> (Inl AttributeError, w1)
          | Some e \<Rightarrow>
              case decrypt (aes_fn rt) e data of
                (Inl x, e') \<Rightarrow> (Inl x, w1\<lparr>encryptor := Some e'\<rparr>)
              | (Inr decrypted, e') \<Rightarrow>
                  case send_all Sock decrypted (w1\<lparr>encryptor := Some e'\<rparr>) of
                    (Inl x, w2) \<Rightarrow> (Inl x, w2)
                  | (Inr result, w2) \<Rightarrow>
                      if result < length data then (Inl SendFailed, w2)
                      else (Inr Continue,
                            w2\<lparr>sink := update_traffic (sink w2) (conn_id rt)
                                          (int (length decrypted)) 0\<rparr>))"

text \<open>The \<open>while True\<close> loop: each round is one return of \<open>select\<close>, saying which of the two
  sockets are readable.\<close>

fun local_relay_loop :: "runtime \<Rightarrow> (bool \<times> bool) list \<Rightarrow> world \<Rightarrow> outcome \<times> world" where
  "local_relay_loop rt [] w = (Blocked, w)"
| "local_relay_loop rt ((sock_ready, remote_ready) # rounds) w =
     (case (if sock_ready then local_sock_leg rt w else (Inr Continue, w)) of
        (Inl x, w1) \<Rightarrow> (Raised x, w1)
      | (Inr Break, w1) \<Rightarrow> (Returned, w1)
      | (Inr Continue, w1) \<Rightarrow>
          (case (if remote_ready then local_remote_leg rt w1 else (Inr Continue, w1)) of
             (Inl x, w2) \<Rightarrow> (Raised x, w2)
           | (Inr Break, w2) \<Rightarrow> (Returned, w2)
           | (Inr Continue, w2) \<Rightarrow> local_relay_loop rt rounds w2))"

text \<open>\<open>SocksProxy.handle_tcp\<close>: the \<open>finally\<close> clause closes both sockets on every way out of
  the \<open>try\<close> block.\<close>

definition SocksProxy_handle_tcp :: "runtime \<Rightarrow> (bool \<times> bool) list \<Rightarrow> world \<Rightarrow> outcome \<times> world" where
  "SocksProxy_handle_tcp rt rounds w =
     (let (r, w1) =
            (case peername w of
               None \<Rightarrow> (Raised SocketError, w)
             | Some (h, p) \<Rightarrow>
                 local_relay_loop rt rounds
                   (w\<lparr>sink := add_connection (clock rt) (sink w) (conn_id rt) h p\<rparr>))
      in if r = Blocked then (Blocked, w1) else (r, close Remote (close Sock w1)))"

section \<open>The SOCKS5 front-end: SocksProxy.handle_connection (local3.py)\<close>

datatype target = IPv4 bytes | DomainName byte bytes

text \<open>The reply \<open>b"\x05\x00\x00\x01" + inet_aton('0.0.0.0') + pack(">H", 0)\<close>.\<close>

definition socks5_reply :: bytes where
  "socks5_reply = [5, 0, 0, 1, 0, 0, 0, 0, 0, 0]"

text \<open>\<open>data_to_send\<close>: the address type, the address and the port as they were received.
  \<open>addr.encode('utf-8')\<close> gives back the bytes that \<open>decode('utf-8')\<close> accepted.\<close>

definition data_to_send :: "target \<Rightarrow> bytes \<Rightarrow> bytes" where
  "data_to_send tgt addr_port =
     (case tgt of
        IPv4 addr_ip \<Rightarrow> [1] @ addr_ip
      | DomainName addr_len addr \<Rightarrow> [3] @ [addr_len] @ addr) @ addr_port"

text \<open>
  The greeting and the request (from \<open>sock.recv(262)\<close> to \<open>struct.unpack('>H', addr_port)\<close>).
  The result is \<open>None\<close> where the code returns early. \<open>data[1]\<close> and \<open>data[3]\<close> raise
  \<open>IndexError\<close> on a short read, \<open>inet_ntoa\<close> raises \<open>OSError\<close> (which is \<open>socket.error\<close>)
  unless it gets four bytes, \<open>decode\<close> raises \<open>UnicodeDecodeError\<close>, \<open>unpack\<close> raises
  \<open>struct.error\<close> unless it gets two bytes.
\<close>

definition read_request :: "runtime \<Rightarrow> world \<Rightarrow> (exn + (target \<times> bytes) option) \<times> world" where
  "read_request rt w =
     (case recv Sock 262 w of
        (Inl x, w1) \<Rightarrow> (Inl x, w1)
      | (Inr greeting, w1) \<Rightarrow>
      case send Sock [5, 0] w1 of
        (Inl x, w2) \<Rightarrow> (Inl x, w2)
      | (Inr n, w2) \<Rightarrow>
      case recv Sock 4 w2 of
        (Inl x, w3) \<Rightarrow> (Inl x, w3)
      | (Inr data, w3) \<Rightarrow>
      if length data \<le> 1 then (Inl IndexError, w3)
      else if data ! 1 \<noteq> 1 then (Inr None, w3)
      else if length data \<le> 3 then (Inl IndexError, w3)
      else
      case (if data ! 3 = 1 then
              (case recv Sock 4 w3 of
                 (Inl x, w4) \<Rightarrow> (Inl x, w4)
               | (Inr addr_ip, w4) \<Rightarrow>
                   if length addr_ip \<noteq> 4 then (Inl SocketError, w4)
                   else (Inr (Some (IPv4 addr_ip)), w4))
            else if data ! 3 = 3 then
              (case recv Sock 1 w3 of
                 (Inl x, w4) \<Rightarrow> (Inl x, w4)
               | (Inr [], w4) \<Rightarrow> (Inl IndexError, w4)
               | (Inr (addr_len # _), w4) \<Rightarrow>
                   (case recv Sock (unat addr_len) w4 of
                      (Inl x, w5) \<Rightarrow> (Inl x, w5)
                    | (Inr addr, w5) \<Rightarrow>
                        if \<not> utf8_ok rt addr then (Inl UnicodeDecodeError, w5)
                        else (Inr (Some (DomainName addr_len addr)), w5)))
            else (Inr None, w3)) of
        (Inl x, w6) \<Rightarrow> (Inl x, w6)
      | (Inr None, w6) \<Rightarrow> (Inr None, w6)
      | (Inr (Some tgt), w6) \<Rightarrow>
      case recv Sock 2 w6 of
        (Inl x, w7) \<Rightarrow> (Inl x, w7)
      | (Inr addr_port, w7) \<Rightarrow>
          if length addr_port \<noteq> 2 then (Inl StructError, w7)
          else (Inr (Some (tgt, addr_port)), w7))"

text \<open>An \<open>except socket.error\<close> clause: the error is logged and the function goes on.\<close>

definition except_socket_error :: "outcome \<times> world \<Rightarrow> outcome \<times> world" where
  "except_socket_error rw = (if fst rw = Raised SocketError then (Returned, snd rw) else rw)"

text \<open>The inner \<open>try\<close> block: dial the server, send the encrypted destination, relay.\<close>

definition open_tunnel ::
  "runtime \<Rightarrow> (bool \<times> bool) list \<Rightarrow> target \<Rightarrow> bytes \<Rightarrow> world \<Rightarrow> outcome \<times> world" where
  "open_tunnel rt rounds tgt addr_port w =
     (case connect w of
        (Inl x, w1) \<Rightarrow> (Raised x, w1)
      | (Inr u, w1) \<Rightarrow>
      case encryptor w1 of
        None \<Rightarrow> (Raised AttributeError, w1)
      | Some e \<Rightarrow>
      case encrypt (aes_fn rt) e (data_to_send tgt addr_port) of
        (Inl x, e') \<Rightarrow> (Raised x, w1\<lparr>encryptor := Some e'\<rparr>)
      | (Inr c, e') \<Rightarrow>
      case send Remote c (w1\<lparr>encryptor := Some e'\<rparr>) of
        (Inl x, w2) \<Rightarrow> (Raised x, w2)
      | (Inr n, w2) \<Rightarrow> SocksProxy_handle_tcp rt rounds w2)"

text \<open>\<open>SocksProxy.handle_connection\<close>: the outer \<open>try\<close> block, its \<open>except socket.error\<close>
  clause and its \<open>finally: sock.close()\<close>.\<close>

definition handle_connection :: "runtime \<Rightarrow> (bool \<times> bool) list \<Rightarrow> world \<Rightarrow> outcome \<times> world" where
  "handle_connection rt rounds w =
     (let (r, w') = except_socket_error
            (case Encryptor_init (sha256_fn rt) (md5_fn rt) (rnd_fn rt) (password rt)
                    (cipher_method rt) of
               Inl x \<Rightarrow> (Raised x, w)
             | Inr e \<Rightarrow>
             case read_request rt (w\<lparr>encryptor := Some e\<rparr>) of
               (Inl x, w1) \<Rightarrow> (Raised x, w1)
             | (Inr None, w1) \<Rightarrow> (Returned, w1)
             | (Inr (Some (tgt, addr_port)), w1) \<Rightarrow>
             case send Sock socks5_reply w1 of
               (Inl x, w2) \<Rightarrow> (Raised x, w2)
             | (Inr n, w2) \<Rightarrow> except_socket_error (open_tunnel rt rounds tgt addr_port w2))
      in if r = Blocked then (Blocked, w') else (r, close Sock w'))"

section \<open>The server relay: Socks5Server.handle_tcp (server3.py)\<close>

text \<open>The branch \<open>if sock in r\<close>: from the peer to the origin.\<close>

definition server_sock_leg :: "runtime \<Rightarrow> world \<Rightarrow> (exn + step) \<times> world" where
  "server_sock_leg rt w =
     (case recv Sock 4096 w of
        (Inl x, w1) \<Rightarrow> (Inl x, w1)
      | (Inr data, w1) \<Rightarrow>
          if length data \<le> 0 then (Inr Break, w1)
          else case encryptor w1 of
            None \<Rightarrow> (Inl AttributeError, w1)
          | Some e \<Rightarrow>
              case decrypt (aes_fn rt) e data of
                (Inl x, e') \<Rightarrow> (Inl x, w1\<lparr>encryptor := Some e'\<rparr>)
              | (Inr decrypted, e') \<Rightarrow>
                  case send_all Remote decrypted (w1\<lparr>encryptor := Some e'\<rparr>) of
                    (Inl x, w2) \<Rightarrow> (Inl x, w2)
                  | (Inr result, w2) \<Rightarrow>
                      if result < length data then (Inl SendFailed, w2)
                      else (Inr Continue,
                            w2\<lparr>sink := update_traffic (sink w2) (conn_id rt) 0
                                          (int (length decrypted))\<rparr>))"

text \<open>The branch \<open>if remote in r\<close>: from the origin to the peer.\<close>

definition server_remote_leg :: "runtime \<Rightarrow> world \<Rightarrow> (exn + step) \<times> world" where
  "server_remote_leg rt w =
     (case recv Remote 4096 w of
        (Inl x, w1) \<Rightarrow> (Inl x, w1)
      | (Inr data, w1) \<Rightarrow>
          if length data \<le> 0 then (Inr Break, w1)
          else case encryptor w1 of
            None \<Rightarrow> (Inl AttributeError, w1)
          | Some e \<Rightarrow>
              case encrypt (aes_fn rt) e data of
                (Inl x, e') \<Rightarrow> (Inl x, w1\<lparr>encryptor := Some e'\<rparr>)
              | (Inr encrypted, e') \<Rightarrow>
                  case send_all Sock encrypted (w1\<lparr>encryptor := Some e'\<rparr>) of
                    (Inl x, w2) \<Rightarrow> (Inl x, w2)
                  | (Inr result, w2) \<Rightarrow>
                      if result < length data then (Inl SendFailed, w2)
                      else (Inr Continue,
                            w2\<lparr>sink := update_traffic (sink w2) (conn_id rt)
                                          (int (length data)) 0\<rparr>))"

fun server_relay_loop :: "runtime \<Rightarrow> (bool \<times> bool) list \<Rightarrow> world \<Rightarrow> outcome \<times> world" where
  "server_relay_loop rt [] w = (Blocked, w)"
| "server_relay_loop rt ((sock_ready, remote_ready) # rounds) w =
     (case (if sock_ready then server_sock_leg rt w else (Inr Continue, w)) of
        (Inl x, w1) \<Rightarrow> (Raised x, w1)
      | (Inr Break, w1) \<Rightarrow> (Returned, w1)
      | (Inr Continue, w1) \<Rightarrow>
          (case (if remote_ready then server_remote_leg rt w1 else (Inr Continue, w1)) of
             (Inl x, w2) \<Rightarrow> (Raised x, w2)
           | (Inr Break, w2) \<Rightarrow> (Returned, w2)
           | (Inr Continue, w2) \<Rightarrow> server_relay_loop rt rounds w2))"

definition Socks5Server_handle_tcp :: "runtime \<Rightarrow> (bool \<times> bool) list \<Rightarrow> world \<Rightarrow> outcome \<times> world" where
  "Socks5Server_handle_tcp rt rounds w =
     (let (r, w1) =
            (case peername w of
               None \<Rightarrow> (Raised SocketError, w)
             | Some (h, p) \<Rightarrow>
                 server_relay_loop rt rounds
                   (w\<lparr>sink := add_connection (clock rt) (sink w) (conn_id rt) h p\<rparr>))
      in if r = Blocked then (Blocked, w1) else (r, close Remote (close Sock w1)))"

section \<open>Conditions on the environment\<close>

text \<open>No \<open>send\<close> of the run fails.\<close>

definition all_sends_succeed :: "world \<Rightarrow> bool" where
  "all_sends_succeed w = list_all (\<lambda>ok. ok) (sends_ok w)"

text \<open>A destination as \<open>read_request\<close> accepts it: four address bytes, or a length byte with
  that many bytes of valid UTF-8.\<close>

definition target_well_formed :: "runtime \<Rightarrow> target \<Rightarrow> bool" where
  "target_well_formed rt tgt =
     (case tgt of
        IPv4 addr_ip \<Rightarrow> length addr_ip = 4
      | DomainName addr_len addr \<Rightarrow> unat addr_len = length addr \<and> utf8_ok rt addr)"

text \<open>The trace of one run of \<open>handle_connection\<close> grows the trace it started from.\<close>

definition grows :: "world \<Rightarrow> world \<Rightarrow> bool" where
  "grows w w' = (\<exists>tr. trace w' = trace w @ tr)"

section \<open>Concrete stand-ins for the library functions\<close>

text \<open>The theorems below hold for every block function, hash function and random source.
  Where a run is evaluated on concrete bytes, these small functions take their place.\<close>

definition demo_block :: block_cipher where
  "demo_block k b = map (\<lambda>x. x + 1) b"

definition demo_sha256 :: "bytes \<Rightarrow> bytes" where
  "demo_sha256 pw = take 32 (pw @ replicate 32 0)"

definition demo_md5 :: "bytes \<Rightarrow> bytes" where
  "demo_md5 pw = take 16 (pw @ replicate 16 0)"

definition demo_rnd :: "nat \<Rightarrow> byte" where
  "demo_rnd n = of_nat (n + 1)"

definition demo_rnd2 :: "nat \<Rightarrow> byte" where
  "demo_rnd2 n = of_nat (2 * n + 100)"

text \<open>A client run: the proxy is configured with the password \<open>pw\<close> and the method
  \<open>aes-256-cfb\<close>; the user application sends the greeting \<open>05 01 00\<close>, then the request
  \<open>05 01 00 01 7F 00 00 01 00 50\<close> (CONNECT to 127.0.0.1:80), then the two bytes \<open>hi\<close>.\<close>

definition demo_runtime :: runtime where
  "demo_runtime =
     \<lparr>aes_fn = demo_block, sha256_fn = demo_sha256, md5_fn = demo_md5, rnd_fn = demo_rnd,
      utf8_ok = (\<lambda>b. True), password = [112, 119], cipher_method = ''aes-256-cfb'',
      conn_id = ''c1'', clock = 10\<rparr>"

definition demo_world :: world where
  "demo_world =
     \<lparr>sock_in = [Data [5, 1, 0], Data [5, 1, 0, 1, 127, 0, 0, 1, 0, 80], Data [104, 105]],
      remote_in = [], sends_ok = [], connect_ok = True,
      peername = Some (''127.0.0.1'', 5000), trace = [], encryptor = None,
      sink = ConnectionStats_init 0\<rparr>"

text \<open>The same run with the command byte 2 (BIND) in the request.\<close>

definition demo_bind_world :: world where
  "demo_bind_world =
     demo_world\<lparr>sock_in := [Data [5, 1, 0], Data [5, 2, 0, 1, 127, 0, 0, 1, 0, 80]]\<rparr>"

text \<open>A server relay configured with the method \<open>table\<close>: three bytes wait on the peer
  socket and two on the origin socket.\<close>

definition demo_server_runtime :: runtime where
  "demo_server_runtime = demo_runtime\<lparr>cipher_method := ''table''\<rparr>"

definition demo_server_world :: world where
  "demo_server_world =
     \<lparr>sock_in = [Data [7, 8, 9]], remote_in = [Data [1, 2]], sends_ok = [], connect_ok = True,
      peername = Some (''10.0.0.9'', 6000), trace = [],
      encryptor = (case Encryptor_init demo_sha256 demo_md5 demo_rnd [112, 119] ''table'' of
                     Inl x \<Rightarrow> None | Inr e \<Rightarrow> Some e),
      sink = ConnectionStats_init 0\<rparr>"

text \<open>
  Two connections of one client. Every connection has its own sockets and trace; the
  attribute \<open>self.encryptor\<close> belongs to the one \<open>SocksProxy\<close> object whose
  \<open>handle_connection\<close> every connection thread runs, and \<open>connection_stats\<close> is global. When a
  thread goes on after another thread has run, it finds these two as the other thread left
  them.
\<close>

definition resume_after :: "world \<Rightarrow> world \<Rightarrow> world" where
  "resume_after mine other = mine\<lparr>encryptor := encryptor other, sink := sink other\<rparr>"

definition demo_runtime_B :: runtime where
  "demo_runtime_B = demo_runtime\<lparr>rnd_fn := demo_rnd2, conn_id := ''c2'', clock := 11\<rparr>"

definition demo_world_B :: world where
  "demo_world_B =
     \<lparr>sock_in = [Data [5, 1, 0], Data [5, 1, 0, 1, 10, 0, 0, 2, 1, 187]],
      remote_in = [], sends_ok = [], connect_ok = True,
      peername = Some (''127.0.0.1'', 5001), trace = [], encryptor = None,
      sink = ConnectionStats_init 0\<rparr>"

text \<open>Connection A does its handshake and waits in \<open>select\<close>; connection B is accepted and does
  the same; then A's user socket becomes readable and A's loop goes on.\<close>

definition demo_A_waiting :: world where
  "demo_A_waiting = snd (handle_connection demo_runtime [] demo_world)"

definition demo_B_waiting :: world where
  "demo_B_waiting =
     snd (handle_connection demo_runtime_B [] (resume_after demo_world_B demo_A_waiting))"

definition demo_A_resumed :: world where
  "demo_A_resumed =
     snd (local_relay_loop demo_runtime [(True, False)] (resume_after demo_A_waiting demo_B_waiting))"

text \<open>The Encryptor that the constructor returns for the client run above.\<close>

definition demo_fresh_encryptor :: Encryptor where
  "demo_fresh_encryptor =
     \<lparr>key = demo_sha256 [112, 119], method = ''aes-256-cfb'',
      iv = Some (get_random_bytes demo_rnd 16), iv_sent = False,
      cipher_iv = Some \<lparr>cfb_key = demo_sha256 [112, 119],
                         cfb_reg = get_random_bytes demo_rnd 16\<rparr>,
      decipher = None, encrypt_table = [], decrypt_table = []\<rparr>"

text \<open>Connection A has read its request and sent the reply, and is about to dial; connection
  B is accepted at this moment and does its handshake up to waiting in \<open>select\<close>.\<close>

definition demo_A_replied :: world where
  "demo_A_replied =
     snd (send Sock socks5_reply
            (snd (read_request demo_runtime (demo_world\<lparr>encryptor := Some demo_fresh_encryptor\<rparr>))))"

definition demo_B_dialled :: world where
  "demo_B_dialled =
     snd (handle_connection demo_runtime_B [] (resume_after demo_world_B demo_A_replied))"

section \<open>Properties of the cipher\<close>

subsection \<open>CFB streams\<close>

lemma cfb_encrypt_length: "length (fst (cfb_encrypt aes c ps)) = length ps"
  by (induction ps arbitrary: c) (simp_all add: Let_def split_beta)


lemma cfb_encrypt_append:
  "cfb_encrypt aes c (a @ b) =
     (fst (cfb_encrypt aes c a) @ fst (cfb_encrypt aes (snd (cfb_encrypt aes c a)) b),
      snd (cfb_encrypt aes (snd (cfb_encrypt aes c a)) b))"
  by (induction a arbitrary: c) (simp_all add: Let_def split_beta)





lemma encrypt_streaming:
  "method e = ''aes-256-cfb'' \<Longrightarrow> iv_sent e \<Longrightarrow> cipher_iv e = Some c \<Longrightarrow>
   encrypt aes e d = (Inr (fst (cfb_encrypt aes c d)), e\<lparr>cipher_iv := Some (snd (cfb_encrypt aes c d))\<rparr>)"
  by (simp add: encrypt_def split_beta)

lemma encrypt_first:
  "method e = ''aes-256-cfb'' \<Longrightarrow> \<not> iv_sent e \<Longrightarrow> cipher_iv e = Some c \<Longrightarrow> iv e = Some v \<Longrightarrow>
   encrypt aes e d = (Inr (v @ fst (cfb_encrypt aes c d)),
                      e\<lparr>iv_sent := True, cipher_iv := Some (snd (cfb_encrypt aes c d))\<rparr>)"
  by (simp add: encrypt_def split_beta Let_def)

lemma encrypt_chunks_streaming:
  "method e = ''aes-256-cfb'' \<Longrightarrow> iv_sent e \<Longrightarrow> cipher_iv e = Some c \<Longrightarrow>
   \<exists>cs. encrypt_chunks aes e ds =
           (Inr cs, e\<lparr>cipher_iv := Some (snd (cfb_encrypt aes c (concat ds)))\<rparr>)
      \<and> concat cs = fst (cfb_encrypt aes c (concat ds))
      \<and> map length cs = map length ds"
proof (induction ds arbitrary: e c)
  case Nil
  then show ?case by simp
next
  case (Cons d ds)
  let ?e' = "e\<lparr>cipher_iv := Some (snd (cfb_encrypt aes c d))\<rparr>"
  have m: "method ?e' = ''aes-256-cfb''" and s: "iv_sent ?e'"
    and dc: "cipher_iv ?e' = Some (snd (cfb_encrypt aes c d))"
    using Cons.prems by simp_all
  from Cons.IH [OF m s dc] obtain cs where
    cs: "encrypt_chunks aes ?e' ds =
           (Inr cs, ?e'\<lparr>cipher_iv := Some (snd (cfb_encrypt aes (snd (cfb_encrypt aes c d)) (concat ds)))\<rparr>)"
        "concat cs = fst (cfb_encrypt aes (snd (cfb_encrypt aes c d)) (concat ds))"
        "map length cs = map length ds"
    by blast
  show ?case
    using cs by (simp add: encrypt_streaming [OF Cons.prems] cfb_encrypt_append cfb_encrypt_length)
qed

lemma Encryptor_init_aes:
  "Encryptor_init sha256 md5 rnd pw ''aes-256-cfb'' =
     Inr \<lparr>key = sha256 pw, method = ''aes-256-cfb'', iv = Some (get_random_bytes rnd 16),
          iv_sent = False,
          cipher_iv = Some \<lparr>cfb_key = sha256 pw, cfb_reg = get_random_bytes rnd 16\<rparr>,
          decipher = None, encrypt_table = [], decrypt_table = []\<rparr>"
  by (simp add: Encryptor_init_def AES_new_def get_random_bytes_def Let_def)

subsection \<open>The substitution table\<close>

lemma unat_of_nat_byte: "n < 256 \<Longrightarrow> unat (of_nat n :: byte) = n"
  by (simp add: unat_of_nat)

lemma foldl_sort_set: "set (foldl (\<lambda>t i. sort_key (f i) t) xs js) = set xs"
  by (induction js arbitrary: xs) simp_all

lemma foldl_sort_distinct: "distinct (foldl (\<lambda>t i. sort_key (f i) t) xs js) = distinct xs"
  by (induction js arbitrary: xs) simp_all

lemma foldl_sort_length: "length (foldl (\<lambda>t i. sort_key (f i) t) xs js) = length xs"
  by (induction js arbitrary: xs) simp_all


lemma get_table_raw: "get_table md5 pw = map of_nat (raw_table (unpack_le_u64 (md5 pw)))"
  by (simp add: get_table_def raw_table_def Let_def)

lemma raw_table_props:
  "set (raw_table a) = {0..<256}" "distinct (raw_table a)" "length (raw_table a) = 256"
  unfolding raw_table_def
  by (simp_all only: foldl_sort_set foldl_sort_distinct foldl_sort_length set_upt distinct_upt length_upt)

lemma map_unat_get_table: "map unat (get_table md5 pw) = raw_table (unpack_le_u64 (md5 pw))"
proof -
  have "\<forall>n \<in> set (raw_table (unpack_le_u64 (md5 pw))). n < 256"
    by (simp add: raw_table_props)
  then have "map (unat \<circ> (of_nat :: nat \<Rightarrow> byte)) (raw_table (unpack_le_u64 (md5 pw))) =
             raw_table (unpack_le_u64 (md5 pw))"
    by (intro map_idI) (simp add: unat_of_nat_byte)
  then show ?thesis by (simp add: get_table_raw)
qed

lemma foldl_upd_length: "length (foldl (\<lambda>t (f, x). t[unat f := x]) t ps) = length t"
  by (induction ps arbitrary: t) (simp_all add: split_beta)

lemma foldl_upd_other:
  "f \<notin> fst ` set ps \<Longrightarrow> foldl (\<lambda>t (f, x). t[unat f := x]) t ps ! unat f = t ! unat f"
proof (induction ps arbitrary: t)
  case Nil
  then show ?case by simp
next
  case (Cons p ps)
  then have "fst p \<noteq> f" and "f \<notin> fst ` set ps" by auto
  then have "unat (fst p) \<noteq> unat f" by (simp add: word_unat_eq_iff)
  with Cons.IH [OF \<open>f \<notin> fst ` set ps\<close>] show ?case
    by (simp add: split_beta)
qed

lemma foldl_upd_lookup:
  "distinct (map fst ps) \<Longrightarrow> (f, x) \<in> set ps \<Longrightarrow> unat f < length t \<Longrightarrow>
   foldl (\<lambda>t (f, x). t[unat f := x]) t ps ! unat f = x"
proof (induction ps arbitrary: t)
  case Nil
  then show ?case by simp
next
  case (Cons p ps)
  show ?case
  proof (cases "p = (f, x)")
    case True
    with Cons.prems have "f \<notin> fst ` set ps" by auto
    with True Cons.prems show ?thesis
      by (simp add: foldl_upd_other)
  next
    case False
    with Cons.prems have "(f, x) \<in> set ps" "distinct (map fst ps)" by auto
    with Cons.IH [of "t[unat (fst p) := snd p]"] Cons.prems show ?thesis
      by (simp add: split_beta)
  qed
qed

lemma length_bytes_range_256: "length bytes_range_256 = 256"
  by (simp add: bytes_range_256_def)

lemma nth_bytes_range_256: "bytes_range_256 ! unat (b :: byte) = b"
proof -
  have "unat b < 256" using unsigned_less [of b, where ?'a = nat] by simp
  then show ?thesis by (simp add: bytes_range_256_def)
qed

lemma get_table_length: "length (get_table md5 pw) = 256"
  using arg_cong [OF map_unat_get_table, of length md5 pw] by (simp add: raw_table_props)

lemma get_table_distinct: "distinct (get_table md5 pw)"
proof -
  have "distinct (map unat (get_table md5 pw))"
    by (simp add: map_unat_get_table raw_table_props)
  then show ?thesis by (simp add: distinct_map)
qed

lemma maketrans_inverse:
  assumes "length t = 256" "distinct t"
  shows "\<exists>t'. maketrans t bytes_range_256 = Inr t' \<and> length t' = 256
               \<and> (\<forall>b. t' ! unat (t ! unat b) = b)"
proof -
  let ?t' = "foldl (\<lambda>t (f, x). t[unat f := x]) bytes_range_256 (zip t bytes_range_256)"
  have mk: "maketrans t bytes_range_256 = Inr ?t'"
    using assms by (simp add: maketrans_def length_bytes_range_256)
  have len: "length ?t' = 256"
    by (simp add: foldl_upd_length length_bytes_range_256)
  have inv: "?t' ! unat (t ! unat b) = b" for b :: byte
  proof -
    have lt: "unat b < 256" using unsigned_less [of b, where ?'a = nat] by simp
    have "(t ! unat b, bytes_range_256 ! unat b) \<in> set (zip t bytes_range_256)"
      using lt assms by (simp add: in_set_zip length_bytes_range_256) blast
    then have mem: "(t ! unat b, b) \<in> set (zip t bytes_range_256)"
      by (simp add: nth_bytes_range_256)
    have d: "distinct (map fst (zip t bytes_range_256))"
      using assms by (simp add: length_bytes_range_256)
    have "unat (t ! unat b) < length bytes_range_256"
      using unsigned_less [of "t ! unat b", where ?'a = nat] by (simp add: length_bytes_range_256)
    from foldl_upd_lookup [OF d mem this] show ?thesis .
  qed
  from mk len inv show ?thesis by blast
qed

lemma translate_roundtrip:
  assumes "length t = 256" "length t' = 256" "\<forall>b. t' ! unat (t ! unat b) = b"
  shows "\<exists>c. translate d t = Inr c \<and> translate c t' = Inr d"
  using assms by (simp add: translate_def comp_def)


subsection \<open>Sessions\<close>

lemma length_get_random_bytes: "length (get_random_bytes rnd n) = n"
  by (simp add: get_random_bytes_def)




section \<open>Properties of the accounting sink\<close>

lemma sum_update_present:
  "map_of al k = Some r \<Longrightarrow>
   sum_list (map (\<lambda>(k, r). f r) (AList.update k v al))
     = sum_list (map (\<lambda>(k, r). f r) al) - f r + (f v :: int)"
  by (induction al) (auto split: if_splits)

lemma sum_update_absent:
  "k \<notin> fst ` set al \<Longrightarrow>
   sum_list (map (\<lambda>(k, r). f r) (AList.update k v al))
     = sum_list (map (\<lambda>(k, r). f r) al) + (f v :: int)"
  by (induction al) (auto split: if_splits)

lemma count_as_sum:
  "int (length (filter (\<lambda>(k, r). P r) al)) = sum_list (map (\<lambda>(k, r). if P r then 1 else 0) al)"
  by (induction al) auto

lemma tracked_add:
  assumes "tracked s added_ids done_ids" "client_id \<notin> set added_ids"
  shows "tracked (add_connection now s client_id h p) (client_id # added_ids) done_ids"
proof -
  have fresh: "client_id \<notin> fst ` set (connections s)"
    using assms by (simp add: tracked_def)
  show ?thesis
    using assms fresh
    by (auto simp: tracked_def add_connection_def sink_consistent_def count_as_sum
          sum_update_absent dom_update update_conv')
qed

lemma tracked_update:
  assumes "tracked s added_ids done_ids"
  shows "tracked (update_traffic s client_id b_in b_out) added_ids done_ids"
proof (cases "map_of (connections s) client_id")
  case None
  with assms show ?thesis by (simp add: update_traffic_def)
next
  case (Some r)
  then have "client_id \<in> fst ` set (connections s)"
    by (metis domI dom_map_of_conv_image_fst)
  with assms Some show ?thesis
    by (auto simp: tracked_def update_traffic_def sink_consistent_def count_as_sum
          sum_update_present dom_update update_conv' split: if_splits)
qed

lemma tracked_close:
  assumes "tracked s added_ids done_ids" "client_id \<in> set added_ids" "client_id \<notin> set done_ids"
  shows "tracked (close_connection now s client_id) added_ids (client_id # done_ids)"
proof -
  from assms have "client_id \<in> fst ` set (connections s)" by (simp add: tracked_def)
  then obtain r where r: "map_of (connections s) client_id = Some r"
    by (metis domD dom_map_of_conv_image_fst)
  with assms have act: "status r = ''active''" by (simp add: tracked_def)
  from assms r act \<open>client_id \<in> fst ` set (connections s)\<close> show ?thesis
    by (auto simp: tracked_def close_connection_def sink_consistent_def count_as_sum
          sum_update_present dom_update update_conv' split: if_splits)
qed

lemma tracked_close_unknown:
  assumes "tracked s added_ids done_ids" "client_id \<notin> set added_ids"
  shows "close_connection now s client_id = s"
proof -
  from assms have "client_id \<notin> fst ` set (connections s)" by (simp add: tracked_def)
  then have "map_of (connections s) client_id = None"
    by (simp add: map_of_eq_None_iff)
  then show ?thesis by (simp add: close_connection_def)
qed

lemma tracked_reset: "tracked (reset now s) [] []"
  by (simp add: tracked_def reset_def sink_consistent_def)


lemma run_calls_consistent:
  "tracked s added_ids done_ids \<Longrightarrow> closes_at_most_once added_ids done_ids cs \<Longrightarrow> adds_fresh added_ids cs \<Longrightarrow>
   sink_consistent (run_calls s cs)"
proof (induction cs arbitrary: s added_ids done_ids)
  case Nil
  then show ?case by (simp add: tracked_def)
next
  case (Cons c cs)
  show ?case
  proof (cases c)
    case (AddConnection now client_id h p)
    with Cons.prems have "tracked (apply_call s c) (client_id # added_ids) done_ids"
      by (simp add: tracked_add)
    with Cons.IH [of "apply_call s c" "client_id # added_ids" done_ids] Cons.prems AddConnection
    show ?thesis by simp
  next
    case (UpdateTraffic client_id b_in b_out)
    with Cons.prems have "tracked (apply_call s c) added_ids done_ids"
      by (simp add: tracked_update)
    with Cons.IH [of "apply_call s c" added_ids done_ids] Cons.prems UpdateTraffic
    show ?thesis by simp
  next
    case (CloseConnection now client_id)
    show ?thesis
    proof (cases "client_id \<in> set added_ids")
      case True
      with Cons.prems CloseConnection have "tracked (apply_call s c) added_ids (client_id # done_ids)"
        by (simp add: tracked_close)
      with Cons.IH [of "apply_call s c" added_ids "client_id # done_ids"] Cons.prems CloseConnection True
      show ?thesis by simp
    next
      case False
      with Cons.prems CloseConnection have "apply_call s c = s"
        by (simp add: tracked_close_unknown)
      with Cons.IH [of s added_ids done_ids] Cons.prems CloseConnection False
      show ?thesis by simp
    qed
  next
    case (ResetStats now)
    have "tracked (apply_call s c) [] []"
      by (simp add: ResetStats tracked_reset)
    with Cons.IH [of "apply_call s c" "[]" "[]"] Cons.prems ResetStats
    show ?thesis by simp
  qed
qed

section \<open>Properties of the socket operations and of the client\<close>

lemma trace_set_pending [simp]: "trace (set_pending s xs w) = trace w"
  by (cases s) (simp_all add: set_pending_def)

lemma recv_trace: "trace (snd (recv s n w)) = trace w"
  by (simp add: recv_def split: list.splits arrival.splits)

lemma recv_trace': "recv s n w = (r, w') \<Longrightarrow> trace w' = trace w"
  using recv_trace [of s n w] by simp

lemma send_trace:
  "send s d w = (r, w') \<Longrightarrow>
   (\<exists>n. r = Inr n \<and> trace w' = trace w @ [Send s d]) \<or> (r = Inl SocketError \<and> trace w' = trace w)"
  by (auto simp: send_def split: list.splits if_splits)

lemma send_all_eq: "send_all s d w = send s d w"
  by (simp add: send_all_def split: prod.splits sum.splits)

lemma grows_refl [simp]: "grows w w"
  by (simp add: grows_def)

lemma grows_trans: "grows a b \<Longrightarrow> grows b c \<Longrightarrow> grows a c"
  by (auto simp: grows_def)

lemma grows_same_trace: "trace w' = trace w \<Longrightarrow> grows w w'"
  by (simp add: grows_def)

lemma grows_recv: "recv s n w = (r, w') \<Longrightarrow> grows w w'"
  by (simp add: grows_def recv_trace')

lemma grows_send: "send s d w = (r, w') \<Longrightarrow> grows w w'"
  by (auto simp: grows_def dest: send_trace)

lemma grows_close [simp]: "grows w (close s w)"
  by (simp add: grows_def close_def)

lemma grows_close_right: "grows w w' \<Longrightarrow> grows w (close s w')"
  by (auto simp: grows_def close_def)


lemma grows_update_fields [simp]:
  "grows w (w'\<lparr>encryptor := e\<rparr>) = grows w w'"
  "grows w (w'\<lparr>sink := k\<rparr>) = grows w w'"
  "grows (w\<lparr>encryptor := e\<rparr>) w' = grows w w'"
  "grows (w\<lparr>sink := k\<rparr>) w' = grows w w'"
  by (simp_all add: grows_def)

lemma grows_local_sock_leg: "local_sock_leg rt w = (r, w') \<Longrightarrow> grows w w'"
  unfolding local_sock_leg_def send_all_eq
  by (auto split: prod.splits sum.splits if_splits option.splits
      dest!: grows_recv grows_send intro: grows_trans)

lemma grows_local_remote_leg: "local_remote_leg rt w = (r, w') \<Longrightarrow> grows w w'"
  unfolding local_remote_leg_def send_all_eq
  by (auto split: prod.splits sum.splits if_splits option.splits
      dest!: grows_recv grows_send intro: grows_trans)

lemma grows_local_relay_loop: "local_relay_loop rt rounds w = (r, w') \<Longrightarrow> grows w w'"
proof (induction rounds arbitrary: w)
  case Nil
  then show ?case by simp
next
  case (Cons rd rounds)
  obtain a b where rd: "rd = (a, b)" by (cases rd)
  obtain r1 w1 where l1: "(if a then local_sock_leg rt w else (Inr Continue, w)) = (r1, w1)"
    by (cases "if a then local_sock_leg rt w else (Inr Continue, w)")
  then have g1: "grows w w1"
    by (auto split: if_splits dest: grows_local_sock_leg)
  obtain r2 w2 where l2: "(if b then local_remote_leg rt w1 else (Inr Continue, w1)) = (r2, w2)"
    by (cases "if b then local_remote_leg rt w1 else (Inr Continue, w1)")
  then have g2: "grows w1 w2"
    by (auto split: if_splits dest: grows_local_remote_leg)
  from Cons.prems show ?case
    unfolding rd local_relay_loop.simps l1
    using g1 g2 l2 Cons.IH [of w2]
    by (auto split: sum.splits step.splits intro: grows_trans)
qed

lemma grows_handle_tcp: "SocksProxy_handle_tcp rt rounds w = (r, w') \<Longrightarrow> grows w w'"
  unfolding SocksProxy_handle_tcp_def
  by (auto simp: Let_def split: prod.splits option.splits if_splits
      dest!: grows_local_relay_loop intro!: grows_close_right)


lemma snd_except_socket_error [simp]: "snd (except_socket_error rw) = snd rw"
  by (simp add: except_socket_error_def)


lemma finish_trace:
  "(if r = Blocked then (Blocked, w1) else (r, close Sock w1)) = (r', w') \<Longrightarrow>
   trace w' = trace w1 \<or> trace w' = trace w1 @ [Close Sock]"
  by (auto simp: close_def split: if_splits)


lemma list_all_tl: "list_all P xs \<Longrightarrow> list_all P (tl xs)"
  by (cases xs) simp_all

lemma sends_ok_set_pending [simp]: "sends_ok (set_pending s xs w) = sends_ok w"
  by (cases s) (simp_all add: set_pending_def)

lemma encryptor_set_pending [simp]: "encryptor (set_pending s xs w) = encryptor w"
  by (cases s) (simp_all add: set_pending_def)

lemma connect_ok_set_pending [simp]: "connect_ok (set_pending s xs w) = connect_ok w"
  by (cases s) (simp_all add: set_pending_def)

lemma pending_set_pending [simp]: "pending s (set_pending s xs w) = xs"
  by (cases s) (simp_all add: set_pending_def pending_def)

lemma send_succeeds:
  "all_sends_succeed w \<Longrightarrow>
   send s d w = (Inr (length d), w\<lparr>sends_ok := tl (sends_ok w), trace := trace w @ [Send s d]\<rparr>)"
  by (cases "sends_ok w") (simp_all add: send_def all_sends_succeed_def)

lemma Encryptor_init_table:
  "m \<noteq> ''aes-256-cfb'' \<Longrightarrow>
   Encryptor_init sha256 md5 rnd pw m =
     Inr \<lparr>key = pw, method = m, iv = None, iv_sent = False, cipher_iv = None, decipher = None,
          encrypt_table = get_table md5 pw,
          decrypt_table = foldl (\<lambda>t (f, x). t[unat f := x]) bytes_range_256
                            (zip (get_table md5 pw) bytes_range_256)\<rparr>"
  by (simp add: Encryptor_init_def maketrans_def get_table_length length_bytes_range_256 Let_def)

lemma Encryptor_init_total: "\<exists>e. Encryptor_init sha256 md5 rnd pw m = Inr e"
  by (cases "m = ''aes-256-cfb''") (simp_all add: Encryptor_init_aes Encryptor_init_table)

lemma read_request_not_connect:
  assumes "sock_in w = Data greeting # Data req # rest"
    and "length greeting \<le> 262" and "1 < length req" and "req ! 1 \<noteq> 1"
    and "all_sends_succeed w"
  shows "\<exists>w'. read_request rt w = (Inr None, w') \<and> trace w' = trace w @ [Send Sock [5, 0]]"
  using assms
  by (simp add: read_request_def recv_def pending_def send_succeeds all_sends_succeed_def
      list_all_tl set_pending_def)


lemmas run_defs =
  handle_connection_def read_request_def open_tunnel_def SocksProxy_handle_tcp_def
  local_sock_leg_def local_remote_leg_def except_socket_error_def data_to_send_def
  recv_def send_def send_all_def connect_def close_def pending_def set_pending_def
  Encryptor_init_def AES_new_def get_random_bytes_def encrypt_def decrypt_def
  keystream_byte_def shift_in_def
  add_connection_def update_traffic_def ConnectionStats_init_def reset_def
  demo_runtime_def demo_world_def demo_block_def demo_rnd_def demo_sha256_def
  Let_def upt_rec


lemma read_request_connect:
  assumes "sock_in w = Data greeting # Data (ver # 1 # rsv # data_to_send tgt pt @ payload) # rest"
    and "length greeting \<le> 262" and "target_well_formed rt tgt" and "length pt = 2"
    and "all_sends_succeed w"
  shows "\<exists>w'. read_request rt w = (Inr (Some (tgt, pt)), w')
            \<and> trace w' = trace w @ [Send Sock [5, 0]]
            \<and> sends_ok w' = tl (sends_ok w) \<and> encryptor w' = encryptor w
            \<and> connect_ok w' = connect_ok w"
proof (cases tgt)
  case (IPv4 addr_ip)
  with assms show ?thesis
    by (simp add: read_request_def recv_def pending_def send_succeeds set_pending_def
        data_to_send_def target_well_formed_def all_sends_succeed_def list_all_tl)
next
  case (DomainName addr_len addr)
  with assms show ?thesis
    by (cases "unat addr_len = 0")
       (auto simp: read_request_def recv_def pending_def send_succeeds set_pending_def
        data_to_send_def target_well_formed_def all_sends_succeed_def list_all_tl)
qed

lemma handle_connection_connect:
  assumes aes: "cipher_method rt = ''aes-256-cfb''"
    and inp: "sock_in w = Data greeting # Data (ver # 1 # rsv # data_to_send tgt pt @ payload) # rest"
    and g: "length greeting \<le> 262" and wf: "target_well_formed rt tgt" and pt: "length pt = 2"
    and ok: "all_sends_succeed w" and con: "connect_ok w"
  shows "\<exists>tr. trace (snd (handle_connection rt rounds w)) =
           trace w @ [Send Sock [5, 0], Send Sock socks5_reply, Connect,
                      Send Remote (get_random_bytes (rnd_fn rt) 16 @
                        fst (cfb_encrypt (aes_fn rt)
                               \<lparr>cfb_key = sha256_fn rt (password rt),
                                cfb_reg = get_random_bytes (rnd_fn rt) 16\<rparr>
                               (data_to_send tgt pt)))] @ tr"
proof -
  let ?v = "get_random_bytes (rnd_fn rt) 16"
  let ?c = "\<lparr>cfb_key = sha256_fn rt (password rt), cfb_reg = ?v\<rparr>"
  let ?e = "\<lparr>key = sha256_fn rt (password rt), method = ''aes-256-cfb'', iv = Some ?v,
            iv_sent = False, cipher_iv = Some ?c, decipher = None,
            encrypt_table = [], decrypt_table = []\<rparr>"
  let ?hdr = "data_to_send tgt pt"
  have init: "Encryptor_init (sha256_fn rt) (md5_fn rt) (rnd_fn rt) (password rt)
                (cipher_method rt) = Inr ?e"
    by (simp add: aes Encryptor_init_aes)
  have "\<exists>w'. read_request rt (w\<lparr>encryptor := Some ?e\<rparr>) = (Inr (Some (tgt, pt)), w')
            \<and> trace w' = trace (w\<lparr>encryptor := Some ?e\<rparr>) @ [Send Sock [5, 0]]
            \<and> sends_ok w' = tl (sends_ok (w\<lparr>encryptor := Some ?e\<rparr>))
            \<and> encryptor w' = encryptor (w\<lparr>encryptor := Some ?e\<rparr>)
            \<and> connect_ok w' = connect_ok (w\<lparr>encryptor := Some ?e\<rparr>)"
    using inp g wf pt ok by (intro read_request_connect) (simp_all add: all_sends_succeed_def)
  then obtain w1 where rq: "read_request rt (w\<lparr>encryptor := Some ?e\<rparr>) = (Inr (Some (tgt, pt)), w1)"
    and t1: "trace w1 = trace w @ [Send Sock [5, 0]]"
    and s1: "sends_ok w1 = tl (sends_ok w)" and e1: "encryptor w1 = Some ?e"
    and c1: "connect_ok w1" using con by auto
  have ok1: "all_sends_succeed w1"
    using ok s1 by (simp add: all_sends_succeed_def list_all_tl)
  let ?w2 = "w1\<lparr>sends_ok := tl (sends_ok w1), trace := trace w1 @ [Send Sock socks5_reply]\<rparr>"
  have sd: "send Sock socks5_reply w1 = (Inr (length socks5_reply), ?w2)"
    by (rule send_succeeds [OF ok1])
  let ?w3 = "?w2\<lparr>trace := trace ?w2 @ [Connect]\<rparr>"
  have cn: "connect ?w2 = (Inr (), ?w3)"
    using c1 by (simp add: connect_def)
  let ?e' = "?e\<lparr>iv_sent := True, cipher_iv := Some (snd (cfb_encrypt (aes_fn rt) ?c ?hdr))\<rparr>"
  have en: "encrypt (aes_fn rt) ?e ?hdr = (Inr (?v @ fst (cfb_encrypt (aes_fn rt) ?c ?hdr)), ?e')"
    by (rule encrypt_first) simp_all
  let ?w4 = "?w3\<lparr>encryptor := Some ?e'\<rparr>"
  have ok4: "all_sends_succeed ?w4"
    using ok1 by (simp add: all_sends_succeed_def list_all_tl)
  let ?w5 = "?w4\<lparr>sends_ok := tl (sends_ok ?w4),
                   trace := trace ?w4 @ [Send Remote (?v @ fst (cfb_encrypt (aes_fn rt) ?c ?hdr))]\<rparr>"
  have sr: "send Remote (?v @ fst (cfb_encrypt (aes_fn rt) ?c ?hdr)) ?w4
              = (Inr (length (?v @ fst (cfb_encrypt (aes_fn rt) ?c ?hdr))), ?w5)"
    by (rule send_succeeds [OF ok4])
  obtain r6 w6 where ht: "SocksProxy_handle_tcp rt rounds ?w5 = (r6, w6)"
    by (cases "SocksProxy_handle_tcp rt rounds ?w5")
  from grows_handle_tcp [OF ht] obtain tr where t6: "trace w6 = trace ?w5 @ tr"
    by (auto simp: grows_def)
  have ot: "open_tunnel rt rounds tgt pt ?w2 = (r6, w6)"
    unfolding open_tunnel_def cn using e1 en sr ht by simp
  have hc: "handle_connection rt rounds w =
              (let (r, w') = except_socket_error (except_socket_error (r6, w6))
               in if r = Blocked then (Blocked, w') else (r, close Sock w'))"
    unfolding handle_connection_def init using rq sd ot by simp
  have "trace (snd (handle_connection rt rounds w)) = trace w6
      \<or> trace (snd (handle_connection rt rounds w)) = trace w6 @ [Close Sock]"
    unfolding hc by (simp add: except_socket_error_def close_def Let_def)
  with t6 t1 show ?thesis by auto
qed

text \<open>A loop that waits in \<open>select\<close> goes on with the rounds that come later.\<close>

lemma local_relay_loop_resume:
  "local_relay_loop rt (rounds @ later) w =
     (case local_relay_loop rt rounds w of
        (Blocked, w') \<Rightarrow> local_relay_loop rt later w'
      | (Returned, w') \<Rightarrow> (Returned, w')
      | (Raised x, w') \<Rightarrow> (Raised x, w'))"
proof (induction rounds arbitrary: w)
  case Nil
  then show ?case by simp
next
  case (Cons rd rounds)
  obtain a b where rd: "rd = (a, b)" by (cases rd)
  show ?case
    unfolding rd
    by (simp add: Cons.IH split: prod.splits sum.splits step.splits outcome.splits)
qed

text \<open>The worlds of the two-connection run, evaluated.\<close>

lemma demo_A_waiting_value:
  "demo_A_waiting =
     \<lparr>sock_in = [Data [104, 105]], remote_in = [], sends_ok = [], connect_ok = True,
      peername = Some (''127.0.0.1'', 5000),
      trace = [Send Sock [5, 0], Send Sock socks5_reply, Connect,
               Send Remote [1, 2, 3, 4, 5, 6, 7, 8, 9, 10, 11, 12, 13, 14, 15, 16,
                            3, 124, 4, 5, 7, 7, 88]],
      encryptor = Some
        \<lparr>key = demo_sha256 [112, 119], method = ''aes-256-cfb'',
         iv = Some [1, 2, 3, 4, 5, 6, 7, 8, 9, 10, 11, 12, 13, 14, 15, 16], iv_sent = True,
         cipher_iv = Some \<lparr>cfb_key = demo_sha256 [112, 119],
                            cfb_reg = [8, 9, 10, 11, 12, 13, 14, 15, 16, 3, 124, 4, 5, 7, 7, 88]\<rparr>,
         decipher = None, encrypt_table = [], decrypt_table = []\<rparr>,
      sink = add_connection 10 (ConnectionStats_init 0) ''c1'' ''127.0.0.1'' 5000\<rparr>"
  by (simp add: demo_A_waiting_def handle_connection_def read_request_def open_tunnel_def
      SocksProxy_handle_tcp_def except_socket_error_def data_to_send_def
      recv_def send_def connect_def pending_def set_pending_def
      Encryptor_init_def AES_new_def get_random_bytes_def encrypt_def
      keystream_byte_def shift_in_def
      demo_runtime_def demo_world_def demo_block_def demo_rnd_def
      Let_def upt_rec)

lemma demo_B_waiting_value:
  "encryptor demo_B_waiting = Some
        \<lparr>key = demo_sha256 [112, 119], method = ''aes-256-cfb'',
         iv = Some [100, 102, 104, 106, 108, 110, 112, 114, 116, 118, 120, 122, 124, 126, 128, 130],
         iv_sent = True,
         cipher_iv = Some \<lparr>cfb_key = demo_sha256 [112, 119],
                            cfb_reg = [114, 116, 118, 120, 122, 124, 126, 128, 130,
                                       100, 109, 105, 107, 111, 110, 202]\<rparr>,
         decipher = None, encrypt_table = [], decrypt_table = []\<rparr>"
  "trace demo_B_waiting =
     [Send Sock [5, 0], Send Sock socks5_reply, Connect,
      Send Remote [100, 102, 104, 106, 108, 110, 112, 114, 116, 118, 120, 122, 124, 126, 128, 130,
                   100, 109, 105, 107, 111, 110, 202]]"
  unfolding demo_B_waiting_def demo_A_waiting_value
  by (simp_all add: handle_connection_def read_request_def open_tunnel_def
      SocksProxy_handle_tcp_def except_socket_error_def data_to_send_def
      recv_def send_def connect_def pending_def set_pending_def
      Encryptor_init_def AES_new_def get_random_bytes_def encrypt_def
      keystream_byte_def shift_in_def resume_after_def
      demo_runtime_B_def demo_runtime_def demo_world_B_def demo_block_def demo_rnd2_def
      Let_def upt_rec)

lemma demo_server_encryptor:
  "encryptor demo_server_world = Some
     \<lparr>key = [112, 119], method = ''table'', iv = None, iv_sent = False, cipher_iv = None,
      decipher = None, encrypt_table = get_table demo_md5 [112, 119],
      decrypt_table = foldl (\<lambda>t (f, x). t[unat f := x]) bytes_range_256
                        (zip (get_table demo_md5 [112, 119]) bytes_range_256)\<rparr>"
  by (simp add: demo_server_world_def Encryptor_init_table)

subsection \<open>The attribute iv is shared by the two directions\<close>

text \<open>The first \<open>decrypt\<close> call stores the peer's IV in the attribute that the first \<open>encrypt\<close>
  call emits, while the sending cipher stays keyed with the object's own random bytes.\<close>

lemma decrypt_overwrites_iv:
  "method e = ''aes-256-cfb'' \<Longrightarrow> decipher e = None \<Longrightarrow>
   iv (snd (decrypt aes e d)) = Some (take 16 d)"
  by (simp add: decrypt_def AES_new_def Let_def split_beta)

lemma decrypt_then_encrypt_emits_peer_iv:
  assumes "Encryptor_init sha256 md5 rnd pw ''aes-256-cfb'' = Inr e" and "16 \<le> length d"
  shows "fst (encrypt aes (snd (decrypt aes e d)) p) =
           Inr (take 16 d @
                fst (cfb_encrypt aes \<lparr>cfb_key = sha256 pw, cfb_reg = get_random_bytes rnd 16\<rparr> p))"
proof -
  from assms(1) have e: "e = \<lparr>key = sha256 pw, method = ''aes-256-cfb'',
          iv = Some (get_random_bytes rnd 16), iv_sent = False,
          cipher_iv = Some \<lparr>cfb_key = sha256 pw, cfb_reg = get_random_bytes rnd 16\<rparr>,
          decipher = None, encrypt_table = [], decrypt_table = []\<rparr>"
    by (simp add: Encryptor_init_aes)
  show ?thesis
    using assms(2)
    by (simp add: e decrypt_def encrypt_def AES_new_def Let_def split_beta)
qed

text \<open>
  What a freshly constructed Encryptor that sends first does. Its cipher is keyed with its 16
  random bytes as IV. Its first \<open>encrypt\<close> call returns those 16 bytes followed by the CFB
  ciphertext of its argument; the later calls return ciphertext only, each as long as its
  argument, and together they continue the same CFB stream; calls of \<open>decrypt\<close> change neither
  the flag \<open>iv_sent\<close> nor the state of that stream. On the client, with no other connection at
  work: when the greeting and a CONNECT request arrive, the destination is well formed and
  nothing fails, the first bytes sent to the server are the IV followed by the ciphertext of
  the address header, which is the request from its fourth byte on.
\<close>

lemma fresh_encryptor_wire_format:
  "(\<exists>e cs e'.
       Encryptor_init sha256 md5 rnd pw ''aes-256-cfb'' = Inr e
     \<and> cipher_iv e = Some \<lparr>cfb_key = sha256 pw, cfb_reg = get_random_bytes rnd 16\<rparr>
     \<and> length (get_random_bytes rnd 16) = 16
     \<and> encrypt_chunks aes e (p # ps)
         = (Inr ((get_random_bytes rnd 16 @
                   fst (cfb_encrypt aes \<lparr>cfb_key = sha256 pw, cfb_reg = get_random_bytes rnd 16\<rparr> p))
                 # cs), e')
     \<and> concat cs = fst (cfb_encrypt aes
                           (snd (cfb_encrypt aes
                                   \<lparr>cfb_key = sha256 pw, cfb_reg = get_random_bytes rnd 16\<rparr> p))
                           (concat ps))
     \<and> map length cs = map length ps)
   \<and> (iv_sent (snd (decrypt aes e0 d0)) = iv_sent e0
      \<and> cipher_iv (snd (decrypt aes e0 d0)) = cipher_iv e0)
   \<and> (cipher_method rt = ''aes-256-cfb''
      \<and> sock_in w = Data greeting # Data (ver # 1 # rsv # data_to_send tgt pt @ payload) # rest
      \<and> length greeting \<le> 262 \<and> target_well_formed rt tgt \<and> length pt = 2
      \<and> all_sends_succeed w \<and> connect_ok w
      \<longrightarrow> (\<exists>tr. trace (snd (handle_connection rt rounds w)) =
             trace w @ [Send Sock [5, 0], Send Sock socks5_reply, Connect,
                        Send Remote (get_random_bytes (rnd_fn rt) 16 @
                          fst (cfb_encrypt (aes_fn rt)
                                 \<lparr>cfb_key = sha256_fn rt (password rt),
                                  cfb_reg = get_random_bytes (rnd_fn rt) 16\<rparr>
                                 (data_to_send tgt pt)))] @ tr))"
proof -
  let ?v = "get_random_bytes rnd 16"
  let ?c = "\<lparr>cfb_key = sha256 pw, cfb_reg = ?v\<rparr>"
  let ?e = "\<lparr>key = sha256 pw, method = ''aes-256-cfb'', iv = Some ?v, iv_sent = False,
            cipher_iv = Some ?c, decipher = None, encrypt_table = [], decrypt_table = []\<rparr>"
  let ?e1 = "?e\<lparr>iv_sent := True, cipher_iv := Some (snd (cfb_encrypt aes ?c p))\<rparr>"
  have first: "encrypt aes ?e p = (Inr (?v @ fst (cfb_encrypt aes ?c p)), ?e1)"
    by (rule encrypt_first) simp_all
  obtain cs where cs:
    "encrypt_chunks aes ?e1 ps =
       (Inr cs, ?e1\<lparr>cipher_iv := Some (snd (cfb_encrypt aes (snd (cfb_encrypt aes ?c p)) (concat ps)))\<rparr>)"
    "concat cs = fst (cfb_encrypt aes (snd (cfb_encrypt aes ?c p)) (concat ps))"
    "map length cs = map length ps"
    using encrypt_chunks_streaming [of ?e1 "snd (cfb_encrypt aes ?c p)" aes ps] by auto
  have a: "\<exists>e cs e'.
       Encryptor_init sha256 md5 rnd pw ''aes-256-cfb'' = Inr e
     \<and> cipher_iv e = Some ?c
     \<and> length ?v = 16
     \<and> encrypt_chunks aes e (p # ps) = (Inr ((?v @ fst (cfb_encrypt aes ?c p)) # cs), e')
     \<and> concat cs = fst (cfb_encrypt aes (snd (cfb_encrypt aes ?c p)) (concat ps))
     \<and> map length cs = map length ps"
    using first cs
    by (intro exI [of _ ?e] exI [of _ cs]
          exI [of _ "?e1\<lparr>cipher_iv := Some (snd (cfb_encrypt aes (snd (cfb_encrypt aes ?c p)) (concat ps)))\<rparr>"])
       (simp add: Encryptor_init_aes length_get_random_bytes)
  have b: "iv_sent (snd (decrypt aes e0 d0)) = iv_sent e0
      \<and> cipher_iv (snd (decrypt aes e0 d0)) = cipher_iv e0"
    by (simp add: decrypt_def Let_def split_beta split: option.splits sum.splits)
  show ?thesis
    using a b handle_connection_connect [of rt w greeting ver rsv tgt pt payload rest rounds]
    by blast
qed

lemma fresh_encryptor_wire_format_example:
  "cipher_method demo_runtime = ''aes-256-cfb''
   \<and> sock_in demo_world
       = Data [5, 1, 0] # Data (5 # 1 # 0 # data_to_send (IPv4 [127, 0, 0, 1]) [0, 80] @ [])
         # [Data [104, 105]]
   \<and> length [5, 1, 0 :: byte] \<le> 262
   \<and> target_well_formed demo_runtime (IPv4 [127, 0, 0, 1])
   \<and> length [0, 80 :: byte] = 2
   \<and> all_sends_succeed demo_world \<and> connect_ok demo_world
   \<and> (\<exists>tr. trace (snd (handle_connection demo_runtime [(True, False)] demo_world)) =
         trace demo_world @ [Send Sock [5, 0], Send Sock socks5_reply, Connect,
            Send Remote (get_random_bytes (rnd_fn demo_runtime) 16 @
              fst (cfb_encrypt (aes_fn demo_runtime)
                     \<lparr>cfb_key = sha256_fn demo_runtime (password demo_runtime),
                      cfb_reg = get_random_bytes (rnd_fn demo_runtime) 16\<rparr>
                     (data_to_send (IPv4 [127, 0, 0, 1]) [0, 80])))] @ tr)"
proof -
  have h: "cipher_method demo_runtime = ''aes-256-cfb''"
    "sock_in demo_world
       = Data [5, 1, 0] # Data (5 # 1 # 0 # data_to_send (IPv4 [127, 0, 0, 1]) [0, 80] @ [])
         # [Data [104, 105]]"
    "length [5, 1, 0 :: byte] \<le> 262"
    "target_well_formed demo_runtime (IPv4 [127, 0, 0, 1])"
    "length [0, 80 :: byte] = 2"
    "all_sends_succeed demo_world" "connect_ok demo_world"
    by (simp_all add: demo_runtime_def demo_world_def data_to_send_def target_well_formed_def
        all_sends_succeed_def)
  from fresh_encryptor_wire_format
    [of demo_sha256 demo_md5 demo_rnd "[112, 119]" demo_block "[]" "[]" _ _ demo_runtime demo_world
        "[5, 1, 0]" 5 0 "IPv4 [127, 0, 0, 1]" "[0, 80]" "[]" "[Data [104, 105]]" "[(True, False)]"]
    h
  show ?thesis by blast
qed

text \<open>The worlds of the run in which B is accepted just before A dials, evaluated.\<close>

lemma demo_fresh_encryptor_init:
  "Encryptor_init demo_sha256 demo_md5 demo_rnd [112, 119] ''aes-256-cfb'' = Inr demo_fresh_encryptor"
  by (simp add: Encryptor_init_aes demo_fresh_encryptor_def)

lemma demo_A_replied_value:
  "demo_A_replied =
     \<lparr>sock_in = [Data [104, 105]], remote_in = [], sends_ok = [], connect_ok = True,
      peername = Some (''127.0.0.1'', 5000),
      trace = [Send Sock [5, 0], Send Sock socks5_reply],
      encryptor = Some demo_fresh_encryptor, sink = ConnectionStats_init 0\<rparr>"
  by (simp add: demo_A_replied_def read_request_def recv_def send_def pending_def
      set_pending_def demo_world_def)

lemma demo_A_waiting_after_reply:
  "demo_A_waiting =
     snd (open_tunnel demo_runtime [] (IPv4 [127, 0, 0, 1]) [0, 80] demo_A_replied)"
  unfolding demo_A_waiting_value demo_A_replied_value
  by (simp add: open_tunnel_def SocksProxy_handle_tcp_def data_to_send_def
      send_def connect_def encrypt_def get_random_bytes_def
      keystream_byte_def shift_in_def demo_fresh_encryptor_def
      demo_runtime_def demo_block_def demo_rnd_def Let_def upt_rec)

lemma demo_B_dialled_encryptor:
  "encryptor demo_B_dialled = Some
        \<lparr>key = demo_sha256 [112, 119], method = ''aes-256-cfb'',
         iv = Some [100, 102, 104, 106, 108, 110, 112, 114, 116, 118, 120, 122, 124, 126, 128, 130],
         iv_sent = True,
         cipher_iv = Some \<lparr>cfb_key = demo_sha256 [112, 119],
                            cfb_reg = [114, 116, 118, 120, 122, 124, 126, 128, 130,
                                       100, 109, 105, 107, 111, 110, 202]\<rparr>,
         decipher = None, encrypt_table = [], decrypt_table = []\<rparr>"
  unfolding demo_B_dialled_def demo_A_replied_value
  by (simp add: handle_connection_def read_request_def open_tunnel_def
      SocksProxy_handle_tcp_def except_socket_error_def data_to_send_def
      recv_def send_def connect_def pending_def set_pending_def
      Encryptor_init_def AES_new_def get_random_bytes_def encrypt_def
      keystream_byte_def shift_in_def resume_after_def
      demo_runtime_B_def demo_runtime_def demo_world_B_def demo_block_def demo_rnd2_def
      Let_def upt_rec)

section \<open>The claims\<close>

subsection \<open>C1: the cipher round trip under chunking\<close>




subsection \<open>C2: a first ciphertext buffer shorter than the IV\<close>

text \<open>
  Claim C2. When \<open>decrypt\<close> is called with fewer than 16 bytes while \<open>decipher\<close> is still
  \<open>None\<close>, the call raises (the \<open>ValueError\<close> of \<open>AES.new\<close> for an IV of the wrong length), so
  it delivers no output, and \<open>decipher\<close> is still \<open>None\<close> afterwards: no decrypter is built from
  the truncated IV.
\<close>

theorem short_iv_signals_error:
  assumes "method e = ''aes-256-cfb''" and "decipher e = None" and "length d < 16"
  shows "fst (decrypt aes e d) = Inl ValueError
       \<and> decipher (snd (decrypt aes e d)) = None"
  using assms by (simp add: decrypt_def AES_new_def Let_def)

text \<open>The theorem at a freshly constructed Encryptor and a buffer of 15 bytes.\<close>

theorem short_iv_signals_error_witness:
  "\<exists>e. Encryptor_init demo_sha256 demo_md5 demo_rnd [112, 119] ''aes-256-cfb'' = Inr e
     \<and> method e = ''aes-256-cfb'' \<and> decipher e = None
     \<and> length [1, 2, 3, 4, 5, 6, 7, 8, 9, 10, 11, 12, 13, 14, 15 :: byte] < 16
     \<and> fst (decrypt demo_block e [1, 2, 3, 4, 5, 6, 7, 8, 9, 10, 11, 12, 13, 14, 15]) = Inl ValueError
     \<and> decipher (snd (decrypt demo_block e [1, 2, 3, 4, 5, 6, 7, 8, 9, 10, 11, 12, 13, 14, 15])) = None"
proof -
  let ?e = "\<lparr>key = demo_sha256 [112, 119], method = ''aes-256-cfb'',
             iv = Some (get_random_bytes demo_rnd 16), iv_sent = False,
             cipher_iv = Some \<lparr>cfb_key = demo_sha256 [112, 119],
                                cfb_reg = get_random_bytes demo_rnd 16\<rparr>,
             decipher = None, encrypt_table = [], decrypt_table = []\<rparr>"
  have m: "method ?e = ''aes-256-cfb''" and d: "decipher ?e = None"
    and l: "length [1, 2, 3, 4, 5, 6, 7, 8, 9, 10, 11, 12, 13, 14, 15 :: byte] < 16"
    by simp_all
  from short_iv_signals_error [OF m d l, of demo_block] m d l
  show ?thesis
    unfolding Encryptor_init_aes by blast
qed

subsection \<open>C3: what the server relay counts\<close>

text \<open>
  Claim C3 says that the server adds to \<open>bytes_in\<close> the plaintext it delivers to the origin and
  to \<open>bytes_out\<close> the plaintext it receives from the origin, and the comments in
  \<open>Socks5Server.handle_tcp\<close> say the same (inbound traffic on the leg from the peer, outbound
  traffic on the leg from the origin). The calls do the opposite. In the run below the server
  reads three bytes from the peer and delivers three bytes to the origin: the record shows
  \<open>bytes_in = 0\<close> and \<open>bytes_out = 3\<close>. When it reads two bytes from the origin instead, the
  record shows \<open>bytes_in = 2\<close> and \<open>bytes_out = 0\<close>.
\<close>

theorem server_accounting_swapped:
  "map (\<lambda>(k, r). (k, bytes_in r, bytes_out r))
     (connections (sink (snd (Socks5Server_handle_tcp demo_server_runtime [(True, False)]
                                demo_server_world))))
     = [(''c1'', 0, 3)]
   \<and> map (\<lambda>(k, r). (k, bytes_in r, bytes_out r))
     (connections (sink (snd (Socks5Server_handle_tcp demo_server_runtime [(False, True)]
                                demo_server_world))))
     = [(''c1'', 2, 0)]"
proof -
  have e: "encryptor demo_server_world = Some
     \<lparr>key = [112, 119], method = ''table'', iv = None, iv_sent = False, cipher_iv = None,
      decipher = None, encrypt_table = get_table demo_md5 [112, 119],
      decrypt_table = foldl (\<lambda>t (f, x). t[unat f := x]) bytes_range_256
                        (zip (get_table demo_md5 [112, 119]) bytes_range_256)\<rparr>"
    by (rule demo_server_encryptor)
  have io: "sock_in demo_server_world = [Data [7, 8, 9]]"
    "remote_in demo_server_world = [Data [1, 2]]"
    "sends_ok demo_server_world = []"
    "peername demo_server_world = Some (''10.0.0.9'', 6000)"
    "sink demo_server_world = ConnectionStats_init 0"
    by (simp_all add: demo_server_world_def)
  have rt: "conn_id demo_server_runtime = ''c1''" "clock demo_server_runtime = 10"
    by (simp_all add: demo_server_runtime_def demo_runtime_def)
  show ?thesis
    by (simp add: Socks5Server_handle_tcp_def server_sock_leg_def server_remote_leg_def
        recv_def send_all_def send_def pending_def set_pending_def e io rt
        decrypt_def encrypt_def translate_def foldl_upd_length length_bytes_range_256
        get_table_length add_connection_def update_traffic_def ConnectionStats_init_def
        reset_def Let_def)
qed

subsection \<open>C4: the record of a tunnel that has ended\<close>

text \<open>
  Claim C4 says that on every way out of the relay loop both sockets are closed and the
  connection record is marked closed with an end time. The sockets are closed; the record is
  not touched: \<open>close_connection\<close> is called nowhere. In the run below the user sends two bytes
  and closes; \<open>handle_connection\<close> returns with both sockets closed, and a snapshot taken
  afterwards still lists the record with status \<open>active\<close>, without \<open>end_time\<close>, and counts one
  active connection.
\<close>

theorem relay_exit_leaves_record_active:
  "fst (handle_connection demo_runtime [(True, False), (True, False)] demo_world) = Returned
   \<and> trace (snd (handle_connection demo_runtime [(True, False), (True, False)] demo_world)) =
     [Send Sock [5, 0], Send Sock socks5_reply, Connect,
      Send Remote [1, 2, 3, 4, 5, 6, 7, 8, 9, 10, 11, 12, 13, 14, 15, 16, 3, 124, 4, 5, 7, 7, 88],
      Send Remote [97, 99], Close Sock, Close Remote, Close Sock]
   \<and> map (\<lambda>r. (c_id r, status r, end_time r))
       (snd (fst (get_stats 20
          (sink (snd (handle_connection demo_runtime [(True, False), (True, False)] demo_world))))))
     = [(''c1'', ''active'', None)]
   \<and> active_connections (fst (fst (get_stats 20
          (sink (snd (handle_connection demo_runtime [(True, False), (True, False)] demo_world))))))
     = 1"
  by (simp add: run_defs get_stats_def)

subsection \<open>C5: a request that is not CONNECT\<close>

text \<open>
  Claim C5, as the code has it. The greeting has arrived and been answered with \<open>05 00\<close>, and
  the request that follows has a command byte other than 1. Then \<open>handle_connection\<close> returns
  after closing the user socket; it sends nothing in reply to the request and opens no
  connection to the tunnel server: the answer to the greeting and the close are all it does.
\<close>

theorem unsupported_command_closes:
  assumes "sock_in w = Data greeting # Data req # rest"
    and "length greeting \<le> 262" and "1 < length req" and "req ! 1 \<noteq> 1"
    and "all_sends_succeed w"
  shows "fst (handle_connection rt rounds w) = Returned
       \<and> trace (snd (handle_connection rt rounds w)) = trace w @ [Send Sock [5, 0], Close Sock]"
proof -
  obtain e where e: "Encryptor_init (sha256_fn rt) (md5_fn rt) (rnd_fn rt) (password rt)
                       (cipher_method rt) = Inr e"
    using Encryptor_init_total by blast
  have "\<exists>w'. read_request rt (w\<lparr>encryptor := Some e\<rparr>) = (Inr None, w')
            \<and> trace w' = trace (w\<lparr>encryptor := Some e\<rparr>) @ [Send Sock [5, 0]]"
    using assms by (intro read_request_not_connect) (simp_all add: all_sends_succeed_def)
  then obtain w1 where "read_request rt (w\<lparr>encryptor := Some e\<rparr>) = (Inr None, w1)"
    and "trace w1 = trace w @ [Send Sock [5, 0]]" by auto
  then show ?thesis
    by (simp add: handle_connection_def e except_socket_error_def close_def)
qed

text \<open>The theorem at a request with the command byte 2 (BIND).\<close>

theorem unsupported_command_closes_witness:
  "sock_in demo_bind_world = Data [5, 1, 0] # Data [5, 2, 0, 1, 127, 0, 0, 1, 0, 80] # []
   \<and> length [5, 1, 0 :: byte] \<le> 262
   \<and> 1 < length [5, 2, 0, 1, 127, 0, 0, 1, 0, 80 :: byte]
   \<and> [5, 2, 0, 1, 127, 0, 0, 1, 0, 80 :: byte] ! 1 \<noteq> 1
   \<and> all_sends_succeed demo_bind_world
   \<and> fst (handle_connection demo_runtime [] demo_bind_world) = Returned
   \<and> trace (snd (handle_connection demo_runtime [] demo_bind_world))
       = trace demo_bind_world @ [Send Sock [5, 0], Close Sock]"
proof -
  have i: "sock_in demo_bind_world = Data [5, 1, 0] # Data [5, 2, 0, 1, 127, 0, 0, 1, 0, 80] # []"
    by (simp add: demo_bind_world_def demo_world_def)
  have g: "length [5, 1, 0 :: byte] \<le> 262" by simp
  have l: "1 < length [5, 2, 0, 1, 127, 0, 0, 1, 0, 80 :: byte]" by simp
  have c: "[5, 2, 0, 1, 127, 0, 0, 1, 0, 80 :: byte] ! 1 \<noteq> 1" by simp
  have s: "all_sends_succeed demo_bind_world"
    by (simp add: all_sends_succeed_def demo_bind_world_def demo_world_def)
  from unsupported_command_closes [OF i g l c s, of demo_runtime "[]"] i g l c s
  show ?thesis by blast
qed

text \<open>
  Claim C5 as stated fails on the reply: for the same BIND request the user socket sees
  \<open>05 00\<close> and the close, and no reply with the code 07.
\<close>

theorem unsupported_command_no_reply_counterexample:
  "fst (handle_connection demo_runtime [] demo_bind_world) = Returned
   \<and> trace (snd (handle_connection demo_runtime [] demo_bind_world)) = [Send Sock [5, 0], Close Sock]
   \<and> Send Sock [5, 7, 0, 1, 0, 0, 0, 0, 0, 0]
       \<notin> set (trace (snd (handle_connection demo_runtime [] demo_bind_world)))"
  by (simp add: run_defs demo_bind_world_def)

subsection \<open>C6: the reply comes before the dial\<close>



subsection \<open>C7: what an egress session emits first\<close>

text \<open>
  Claim C7 says that for every egress session the first \<open>encrypt\<close> call returns the 16-byte IV
  followed by the CFB ciphertext of its argument, and that the first bytes the client sends to
  the server are so formed from the address header. \<open>encrypt\<close> does build its first result as
  \<open>self.iv + self.cipher_iv.encrypt(data)\<close>, and the constructor keys \<open>cipher_iv\<close> with
  \<open>self.iv\<close>; but \<open>decrypt\<close> assigns the peer's IV to the same attribute, and on the client the
  Encryptor in use is the one in \<open>self.encryptor\<close>, which the last accepted connection has set.

  In the evaluation below the constructor returns an Encryptor with the IV \<open>1 .. 16\<close>. Used
  for sending at once, it emits \<open>1 .. 16\<close> and the ciphertext \<open>106 106\<close> of \<open>hi\<close>. Used first to
  decrypt a buffer that starts with the peer's IV \<open>100 102 .. 130\<close>, it then emits the peer's
  IV followed by the same ciphertext \<open>106 106\<close>, which was produced under the IV \<open>1 .. 16\<close>; the
  receiver decrypts these bytes to \<open>15 13\<close>, not to \<open>hi\<close>. On the client, connection A alone
  sends its IV and the 7 bytes of its encrypted header; when connection B is accepted and
  does its handshake just before A dials, A sends 7 bytes and no IV: the continuation of B's
  stream.
\<close>

theorem first_emission_not_own_iv:
  "Encryptor_init demo_sha256 demo_md5 demo_rnd [112, 119] ''aes-256-cfb'' = Inr demo_fresh_encryptor
   \<and> fst (encrypt demo_block demo_fresh_encryptor [104, 105])
       = Inr ([1, 2, 3, 4, 5, 6, 7, 8, 9, 10, 11, 12, 13, 14, 15, 16] @ [106, 106])
   \<and> fst (decrypt demo_block demo_fresh_encryptor
             [100, 102, 104, 106, 108, 110, 112, 114, 116, 118, 120, 122, 124, 126, 128, 130, 132])
       = Inr [225]
   \<and> fst (encrypt demo_block
             (snd (decrypt demo_block demo_fresh_encryptor
                [100, 102, 104, 106, 108, 110, 112, 114, 116, 118, 120, 122, 124, 126, 128, 130, 132]))
             [104, 105])
       = Inr ([100, 102, 104, 106, 108, 110, 112, 114, 116, 118, 120, 122, 124, 126, 128, 130]
              @ [106, 106])
   \<and> ingress_plain demo_block demo_sha256 demo_md5 demo_rnd2 [112, 119]
        [[100, 102, 104, 106, 108, 110, 112, 114, 116, 118, 120, 122, 124, 126, 128, 130, 106, 106]]
       = Inr [15, 13]
   \<and> trace (snd (open_tunnel demo_runtime [] (IPv4 [127, 0, 0, 1]) [0, 80] demo_A_replied))
       = [Send Sock [5, 0], Send Sock socks5_reply, Connect,
          Send Remote [1, 2, 3, 4, 5, 6, 7, 8, 9, 10, 11, 12, 13, 14, 15, 16,
                       3, 124, 4, 5, 7, 7, 88]]
   \<and> trace (snd (open_tunnel demo_runtime [] (IPv4 [127, 0, 0, 1]) [0, 80]
                     (resume_after demo_A_replied demo_B_dialled)))
       = [Send Sock [5, 0], Send Sock socks5_reply, Connect,
          Send Remote [114, 10, 119, 121, 122, 125, 47]]"
proof -
  have own: "fst (encrypt demo_block demo_fresh_encryptor [104, 105])
       = Inr ([1, 2, 3, 4, 5, 6, 7, 8, 9, 10, 11, 12, 13, 14, 15, 16] @ [106, 106])"
    by (simp add: demo_fresh_encryptor_def encrypt_def get_random_bytes_def keystream_byte_def
        shift_in_def demo_block_def demo_rnd_def Let_def upt_rec)
  have dec: "fst (decrypt demo_block demo_fresh_encryptor
             [100, 102, 104, 106, 108, 110, 112, 114, 116, 118, 120, 122, 124, 126, 128, 130, 132])
       = Inr [225]"
    by (simp add: demo_fresh_encryptor_def decrypt_def AES_new_def keystream_byte_def
        shift_in_def demo_block_def Let_def)
  have peer: "fst (encrypt demo_block
             (snd (decrypt demo_block demo_fresh_encryptor
                [100, 102, 104, 106, 108, 110, 112, 114, 116, 118, 120, 122, 124, 126, 128, 130, 132]))
             [104, 105])
       = Inr ([100, 102, 104, 106, 108, 110, 112, 114, 116, 118, 120, 122, 124, 126, 128, 130]
              @ [106, 106])"
    by (simp add: demo_fresh_encryptor_def decrypt_def encrypt_def AES_new_def
        get_random_bytes_def keystream_byte_def shift_in_def demo_block_def demo_rnd_def
        Let_def upt_rec)
  have rcv: "ingress_plain demo_block demo_sha256 demo_md5 demo_rnd2 [112, 119]
        [[100, 102, 104, 106, 108, 110, 112, 114, 116, 118, 120, 122, 124, 126, 128, 130, 106, 106]]
       = Inr [15, 13]"
    by (simp add: ingress_plain_def Encryptor_init_def AES_new_def get_random_bytes_def
        decrypt_def keystream_byte_def shift_in_def demo_block_def Let_def)
  have alone: "trace (snd (open_tunnel demo_runtime [] (IPv4 [127, 0, 0, 1]) [0, 80] demo_A_replied))
       = [Send Sock [5, 0], Send Sock socks5_reply, Connect,
          Send Remote [1, 2, 3, 4, 5, 6, 7, 8, 9, 10, 11, 12, 13, 14, 15, 16,
                       3, 124, 4, 5, 7, 7, 88]]"
    unfolding demo_A_waiting_after_reply [symmetric] by (simp add: demo_A_waiting_value)
  have after: "trace (snd (open_tunnel demo_runtime [] (IPv4 [127, 0, 0, 1]) [0, 80]
                     (resume_after demo_A_replied demo_B_dialled)))
       = [Send Sock [5, 0], Send Sock socks5_reply, Connect,
          Send Remote [114, 10, 119, 121, 122, 125, 47]]"
    unfolding resume_after_def demo_B_dialled_encryptor
    by (simp add: demo_A_replied_value open_tunnel_def SocksProxy_handle_tcp_def
        data_to_send_def send_def connect_def encrypt_def keystream_byte_def shift_in_def
        demo_runtime_def demo_block_def Let_def)
  from demo_fresh_encryptor_init own dec peer rcv alone after show ?thesis by simp
qed

subsection \<open>C8: one cipher session for every tunnel\<close>

text \<open>
  Claim C8 says that every tunnel has its own cipher session, never shared between tunnels
  that are active together. On the client \<open>handle_connection\<close> stores the new Encryptor in
  \<open>self.encryptor\<close>, an attribute of the one \<open>SocksProxy\<close> object that all connection threads
  share, and the relay loop reads that attribute at every call. In the run below connection A
  sends its header and waits; connection B is accepted and replaces the Encryptor; then A's
  user sends \<open>hi\<close>. Alone, A would send the bytes \<open>97 99\<close>, which the server decrypts to \<open>hi\<close>.
  After B, A sends \<open>27 28\<close>, the continuation of B's stream, and the server of A decrypts
  them to \<open>18 22\<close>.
\<close>

theorem shared_encryptor_crosses_tunnels:
  "trace (snd (handle_connection demo_runtime [(True, False)] demo_world)) =
     [Send Sock [5, 0], Send Sock socks5_reply, Connect,
      Send Remote [1, 2, 3, 4, 5, 6, 7, 8, 9, 10, 11, 12, 13, 14, 15, 16, 3, 124, 4, 5, 7, 7, 88],
      Send Remote [97, 99]]
   \<and> trace demo_A_resumed =
     [Send Sock [5, 0], Send Sock socks5_reply, Connect,
      Send Remote [1, 2, 3, 4, 5, 6, 7, 8, 9, 10, 11, 12, 13, 14, 15, 16, 3, 124, 4, 5, 7, 7, 88],
      Send Remote [27, 28]]
   \<and> ingress_plain demo_block demo_sha256 demo_md5 demo_rnd2 [112, 119]
        [[1, 2, 3, 4, 5, 6, 7, 8, 9, 10, 11, 12, 13, 14, 15, 16, 3, 124, 4, 5, 7, 7, 88, 97, 99]]
     = Inr [1, 127, 0, 0, 1, 0, 80, 104, 105]
   \<and> ingress_plain demo_block demo_sha256 demo_md5 demo_rnd2 [112, 119]
        [[1, 2, 3, 4, 5, 6, 7, 8, 9, 10, 11, 12, 13, 14, 15, 16, 3, 124, 4, 5, 7, 7, 88, 27, 28]]
     = Inr [1, 127, 0, 0, 1, 0, 80, 18, 22]"
proof -
  have alone: "trace (snd (handle_connection demo_runtime [(True, False)] demo_world)) =
     [Send Sock [5, 0], Send Sock socks5_reply, Connect,
      Send Remote [1, 2, 3, 4, 5, 6, 7, 8, 9, 10, 11, 12, 13, 14, 15, 16, 3, 124, 4, 5, 7, 7, 88],
      Send Remote [97, 99]]"
    by (simp add: run_defs)
  have both: "trace demo_A_resumed =
     [Send Sock [5, 0], Send Sock socks5_reply, Connect,
      Send Remote [1, 2, 3, 4, 5, 6, 7, 8, 9, 10, 11, 12, 13, 14, 15, 16, 3, 124, 4, 5, 7, 7, 88],
      Send Remote [27, 28]]"
    unfolding demo_A_resumed_def resume_after_def demo_B_waiting_value
    by (simp add: demo_A_waiting_value local_sock_leg_def recv_def send_all_def send_def
        pending_def set_pending_def encrypt_def keystream_byte_def shift_in_def
        demo_runtime_def demo_block_def Let_def)
  have d1: "ingress_plain demo_block demo_sha256 demo_md5 demo_rnd2 [112, 119]
        [[1, 2, 3, 4, 5, 6, 7, 8, 9, 10, 11, 12, 13, 14, 15, 16, 3, 124, 4, 5, 7, 7, 88, 97, 99]]
     = Inr [1, 127, 0, 0, 1, 0, 80, 104, 105]"
    by (simp add: ingress_plain_def Encryptor_init_def AES_new_def get_random_bytes_def
        decrypt_def keystream_byte_def shift_in_def demo_block_def Let_def)
  have d2: "ingress_plain demo_block demo_sha256 demo_md5 demo_rnd2 [112, 119]
        [[1, 2, 3, 4, 5, 6, 7, 8, 9, 10, 11, 12, 13, 14, 15, 16, 3, 124, 4, 5, 7, 7, 88, 27, 28]]
     = Inr [1, 127, 0, 0, 1, 0, 80, 18, 22]"
    by (simp add: ingress_plain_def Encryptor_init_def AES_new_def get_random_bytes_def
        decrypt_def keystream_byte_def shift_in_def demo_block_def Let_def)
  from alone both d1 d2 show ?thesis by simp
qed

subsection \<open>C9: the totals of the accounting sink\<close>

text \<open>
  Claim C9, as the code has it. Start from a new sink and make any sequence of
  \<open>add_connection\<close>, \<open>update_traffic\<close>, \<open>close_connection\<close> and \<open>reset\<close> calls in which no
  stored id is closed twice and no \<open>add_connection\<close> reuses an id that is still stored. Then
  \<open>total_bytes_in\<close> and \<open>total_bytes_out\<close> are the sums of \<open>bytes_in\<close> and \<open>bytes_out\<close> over the
  stored records, and \<open>active_connections\<close> is the number of stored records with status
  \<open>active\<close>. On an id that is not stored, \<open>update_traffic\<close> and \<open>close_connection\<close> change
  nothing.
\<close>

theorem sink_totals_consistent:
  "(closes_at_most_once [] [] cs \<and> adds_fresh [] cs
      \<longrightarrow> sink_consistent (run_calls (ConnectionStats_init t0) cs))
   \<and> (map_of (connections s) k = None
      \<longrightarrow> update_traffic s k b_in b_out = s \<and> close_connection now s k = s)"
proof -
  have "tracked (ConnectionStats_init t0) [] []"
    by (simp add: ConnectionStats_init_def tracked_reset)
  then have "closes_at_most_once [] [] cs \<Longrightarrow> adds_fresh [] cs
      \<Longrightarrow> sink_consistent (run_calls (ConnectionStats_init t0) cs)"
    by (rule run_calls_consistent)
  then show ?thesis
    by (simp add: update_traffic_def close_connection_def)
qed

text \<open>The theorem at a sequence of six calls on two connections, and at the unknown id \<open>z\<close>.\<close>

theorem sink_totals_consistent_witness:
  "closes_at_most_once [] []
     [AddConnection 1 ''a'' ''10.0.0.1'' 4000, UpdateTraffic ''a'' 5 7,
      AddConnection 2 ''b'' ''10.0.0.2'' 4001, CloseConnection 3 ''a'',
      UpdateTraffic ''b'' 1 2, CloseConnection 4 ''z'']
   \<and> adds_fresh []
     [AddConnection 1 ''a'' ''10.0.0.1'' 4000, UpdateTraffic ''a'' 5 7,
      AddConnection 2 ''b'' ''10.0.0.2'' 4001, CloseConnection 3 ''a'',
      UpdateTraffic ''b'' 1 2, CloseConnection 4 ''z'']
   \<and> sink_consistent (run_calls (ConnectionStats_init 0)
     [AddConnection 1 ''a'' ''10.0.0.1'' 4000, UpdateTraffic ''a'' 5 7,
      AddConnection 2 ''b'' ''10.0.0.2'' 4001, CloseConnection 3 ''a'',
      UpdateTraffic ''b'' 1 2, CloseConnection 4 ''z''])
   \<and> map_of (connections (ConnectionStats_init 0)) ''z'' = None
   \<and> update_traffic (ConnectionStats_init 0) ''z'' 5 7 = ConnectionStats_init 0
   \<and> close_connection 4 (ConnectionStats_init 0) ''z'' = ConnectionStats_init 0"
proof -
  let ?cs = "[AddConnection 1 ''a'' ''10.0.0.1'' 4000, UpdateTraffic ''a'' 5 7,
      AddConnection 2 ''b'' ''10.0.0.2'' 4001, CloseConnection 3 ''a'',
      UpdateTraffic ''b'' 1 2, CloseConnection 4 ''z'']"
  have c: "closes_at_most_once [] [] ?cs" by simp
  have a: "adds_fresh [] ?cs" by simp
  have u: "map_of (connections (ConnectionStats_init 0)) ''z'' = None"
    by (simp add: ConnectionStats_init_def reset_def)
  from sink_totals_consistent [of ?cs 0 "ConnectionStats_init 0" "''z''" 5 7 4] c a u
  show ?thesis by blast
qed

text \<open>
  Claim C9 as stated fails when an id is added again while it is stored: no connection is
  closed at all here, the second \<open>add_connection\<close> replaces the record that had counted five
  bytes, and the totals still count them (and count two active connections for one record).
\<close>

theorem sink_readded_id_counterexample:
  "closes_at_most_once [] []
     [AddConnection 1 ''a'' ''10.0.0.1'' 4000, UpdateTraffic ''a'' 5 0,
      AddConnection 2 ''a'' ''10.0.0.1'' 4000]
   \<and> \<not> sink_consistent (run_calls (ConnectionStats_init 0)
     [AddConnection 1 ''a'' ''10.0.0.1'' 4000, UpdateTraffic ''a'' 5 0,
      AddConnection 2 ''a'' ''10.0.0.1'' 4000])"
  by (simp add: ConnectionStats_init_def reset_def add_connection_def update_traffic_def
      sink_consistent_def)

subsection \<open>C10: the substitution table\<close>

text \<open>
  Claim C10. For every password the table of \<open>_get_table\<close> is a permutation of the 256 byte
  values: read as numbers, its 256 entries are distinct and are exactly \<open>0..255\<close>. For every
  method other than \<open>aes-256-cfb\<close> the constructor succeeds, neither \<open>encrypt\<close> nor
  \<open>decrypt\<close> raises or changes the object, and \<open>decrypt\<close> gives back what \<open>encrypt\<close> was given.
\<close>

theorem table_cipher_roundtrip:
  assumes "m \<noteq> ''aes-256-cfb''"
  shows "set (map unat (get_table md5 pw)) = {0..<256}
       \<and> distinct (map unat (get_table md5 pw))
       \<and> length (get_table md5 pw) = 256
       \<and> (\<exists>e c. Encryptor_init sha256 md5 rnd pw m = Inr e
                \<and> encrypt_table e = get_table md5 pw
                \<and> encrypt aes e d = (Inr c, e)
                \<and> decrypt aes e c = (Inr d, e))"
proof -
  let ?t = "get_table md5 pw"
  from maketrans_inverse [OF get_table_length get_table_distinct, of md5 pw] obtain t' where
    t': "maketrans ?t bytes_range_256 = Inr t'" "length t' = 256" "\<forall>b. t' ! unat (?t ! unat b) = b"
    by blast
  let ?e = "\<lparr>key = pw, method = m, iv = None, iv_sent = False, cipher_iv = None, decipher = None,
            encrypt_table = ?t, decrypt_table = t'\<rparr>"
  have init: "Encryptor_init sha256 md5 rnd pw m = Inr ?e"
    using assms t'(1) by (simp add: Encryptor_init_def Let_def)
  from translate_roundtrip [OF get_table_length t'(2) t'(3)] obtain c where
    c: "translate d ?t = Inr c" "translate c t' = Inr d" by blast
  have enc: "encrypt aes ?e d = (Inr c, ?e)"
    using assms c(1) by (simp add: encrypt_def)
  have dec: "decrypt aes ?e c = (Inr d, ?e)"
    using assms c(2) by (simp add: decrypt_def)
  have perm: "set (map unat ?t) = {0..<256}" "distinct (map unat ?t)" "length ?t = 256"
    by (simp_all only: map_unat_get_table raw_table_props get_table_length)
  from init enc dec have "\<exists>e c. Encryptor_init sha256 md5 rnd pw m = Inr e
                \<and> encrypt_table e = ?t
                \<and> encrypt aes e d = (Inr c, e)
                \<and> decrypt aes e c = (Inr d, e)"
    by (intro exI [of _ ?e] exI [of _ c]) simp
  with perm show ?thesis by blast
qed

text \<open>The theorem at the method \<open>table\<close> and the three bytes \<open>1, 2, 3\<close>.\<close>

theorem table_cipher_roundtrip_witness:
  "''table'' \<noteq> ''aes-256-cfb''
   \<and> length (get_table demo_md5 [112, 119]) = 256
   \<and> (\<exists>e c. Encryptor_init demo_sha256 demo_md5 demo_rnd [112, 119] ''table'' = Inr e
            \<and> encrypt demo_block e [1, 2, 3] = (Inr c, e)
            \<and> decrypt demo_block e c = (Inr [1, 2, 3], e))"
proof -
  have m: "''table'' \<noteq> ''aes-256-cfb''" by simp
  from table_cipher_roundtrip [OF m, of demo_md5 "[112, 119]" demo_sha256 demo_rnd demo_block "[1, 2, 3]"] m
  show ?thesis by blast
qed


end
